theory Spec2Isabelle
  imports Main
begin

section \<open>Python values, exceptions and string formatting\<close>

text \<open>
  The three scripts are Python. An exception is a value of \<open>pyerr\<close>; a function that may
  raise returns \<open>pyerr + 'a\<close> with \<open>Inl\<close> for the exception. Strings are lists of
  characters, each character standing for one code point below 256. Durations are whole
  seconds (\<open>int\<close>): a \<open>timedelta\<close> is its number of seconds, so \<open>int(td.total_seconds())\<close>
  is the number itself.
\<close>

datatype pyerr =
  HttpError | KeyError | TypeError | AttributeError | JSONDecodeError | ISO8601Error | OSError

text \<open>What \<open>json.loads\<close> returns. Numbers are integers; floating point is left out.\<close>

datatype json =
  JNull | JBool bool | JNum int | JStr string | JArr "json list" | JObj "(string \<times> json) list"

definition digit_char :: "nat \<Rightarrow> char" where
  "digit_char d = ''0123456789'' ! (d mod 10)"

fun str_nat :: "nat \<Rightarrow> string" where
  "str_nat n = (if n < 10 then [digit_char n] else str_nat (n div 10) @ [digit_char (n mod 10)])"

declare str_nat.simps [simp del]

text \<open>\<open>str(i)\<close> for an integer.\<close>

definition str_int :: "int \<Rightarrow> string" where
  "str_int i = (if i < 0 then CHR ''-'' # str_nat (nat (- i)) else str_nat (nat i))"

text \<open>
  The format specification \<open>02\<close> of \<open>f"{i:02}"\<close>: the decimal numeral, filled with zeros on
  the left up to a width of two. A negative numeral has two characters already.
\<close>

definition fmt02 :: "int \<Rightarrow> string" where
  "fmt02 i = (let s = str_int i in replicate (2 - length s) CHR ''0'' @ s)"

text \<open>The two decimal digits of a number below one hundred: what \<open>HH\<close>, \<open>MM\<close>, \<open>SS\<close> mean.\<close>

definition two_digits :: "int \<Rightarrow> string" where
  "two_digits k = [digit_char (nat k div 10), digit_char (nat k mod 10)]"

subsection \<open>The three formatters\<close>

text \<open>\<open>format_timedelta\<close> of \<open>youtube_duration_calculator_api.py\<close> (the multi-source aggregator).\<close>

definition format_timedelta :: "int \<Rightarrow> string" where
  "format_timedelta td =
     (let total_seconds = td;
          days = total_seconds div 86400; remainder = total_seconds mod 86400;
          hours = remainder div 3600; remainder' = remainder mod 3600;
          minutes = remainder' div 60; seconds = remainder' mod 60
      in if days > 0
         then str_int days @ '' days, '' @ fmt02 hours @ '':'' @ fmt02 minutes @ '':'' @ fmt02 seconds
         else fmt02 hours @ '':'' @ fmt02 minutes @ '':'' @ fmt02 seconds)"

text \<open>\<open>format_timedelta\<close> of \<open>search/scripts/youtube-search-api.py\<close>.\<close>

definition format_timedelta_search :: "int \<Rightarrow> string" where
  "format_timedelta_search td =
     (let total_seconds = td;
          hours = total_seconds div 3600; remainder = total_seconds mod 3600;
          minutes = remainder div 60; seconds = remainder mod 60
      in fmt02 hours @ '':'' @ fmt02 minutes @ '':'' @ fmt02 seconds)"

text \<open>The last lines of \<open>get_playlist_duration_ytdlp\<close>, which format the total in place.\<close>

definition format_total_ytdlp :: "int \<Rightarrow> string" where
  "format_total_ytdlp total_seconds =
     (let hours = total_seconds div 3600;
          minutes = (total_seconds mod 3600) div 60;
          seconds = total_seconds mod 60
      in fmt02 hours @ '':'' @ fmt02 minutes @ '':'' @ fmt02 seconds)"

section \<open>The subprocess strategy: \<open>scripts/youtube-playlist-duration.py\<close>\<close>

subsection \<open>Decoded JSON as Python sees it\<close>

text \<open>Truth value of a decoded JSON value (\<open>if video_url:\<close>).\<close>

fun py_truthy :: "json \<Rightarrow> bool" where
  "py_truthy JNull = False"
| "py_truthy (JBool b) = b"
| "py_truthy (JNum n) = (n \<noteq> 0)"
| "py_truthy (JStr s) = (s \<noteq> [])"
| "py_truthy (JArr xs) = (xs \<noteq> [])"
| "py_truthy (JObj kvs) = (kvs \<noteq> [])"

text \<open>\<open>d.get(k, default)\<close> on a dict; \<open>d.get(k)\<close> has the default \<open>None\<close>.\<close>

definition dict_get_default :: "(string \<times> json) list \<Rightarrow> string \<Rightarrow> json \<Rightarrow> json" where
  "dict_get_default kvs k dflt = (case map_of kvs k of None \<Rightarrow> dflt | Some v \<Rightarrow> v)"

definition dict_get :: "(string \<times> json) list \<Rightarrow> string \<Rightarrow> json" where
  "dict_get kvs k = dict_get_default kvs k JNull"

text \<open>
  The number a duration value counts as in \<open>duration >= min_duration_seconds\<close> and in
  \<open>total_seconds += duration\<close>: an integer is itself, a boolean is 0 or 1 (Python's
  \<open>bool\<close> is an \<open>int\<close>), and a string, list or dict raises \<open>TypeError\<close> at the comparison.
  \<open>None\<close> never reaches the comparison.
\<close>

fun duration_number :: "json \<Rightarrow> pyerr + int" where
  "duration_number (JNum d) = Inr d"
| "duration_number (JBool b) = Inr (if b then 1 else 0)"
| "duration_number _ = Inl TypeError"

subsection \<open>Strings\<close>

text \<open>\<open>str.isspace\<close> on the code points below 256.\<close>

definition py_isspace :: "char \<Rightarrow> bool" where
  "py_isspace c = ((of_char c :: nat) \<in> {9, 10, 11, 12, 13, 28, 29, 30, 31, 32, 133, 160})"

definition py_strip :: "string \<Rightarrow> string" where
  "py_strip s = rev (dropWhile py_isspace (rev (dropWhile py_isspace s)))"

text \<open>\<open>s.split(sep)\<close> for a separator of one character: the empty string gives one empty piece.\<close>

fun py_split :: "char \<Rightarrow> string \<Rightarrow> string list" where
  "py_split sep [] = [[]]"
| "py_split sep (c # cs) =
     (if c = sep then [] # py_split sep cs
      else (case py_split sep cs of
              [] \<Rightarrow> [[c]]
            | piece # pieces \<Rightarrow> (c # piece) # pieces))"

definition newline :: char where
  "newline = CHR 0x0A"

subsection \<open>Console output and the subprocess\<close>

text \<open>
  One constructor per \<open>print\<close> call of the script, with the values it interpolates.
\<close>

datatype ytdlp_msg =
    MsgFetching
  | MsgFilterActive int
  | MsgToolNotFound
  | MsgInstallHint
  | MsgRunError string
  | MsgFound nat
  | WarnNoDuration json
  | WarnCouldNotParse
  | MsgSummary nat nat "int option"
  | MsgSaving nat string
  | MsgSaved
  | MsgSaveError string

text \<open>
  What \<open>subprocess.run(..., check=True)\<close> does: the tool is missing, it exits with a
  non-zero status (with its standard error), or it completes with its standard output.
\<close>

datatype proc_result = FileNotFound | CalledProcessError string | Completed string

subsection \<open>\<open>get_playlist_duration_ytdlp\<close>\<close>

text \<open>The locals that the loop over the lines updates, and the console.\<close>

record ytdlp_state =
  total_seconds :: int
  included_videos_count :: nat
  included_video_links :: "json list"
  printed :: "ytdlp_msg list"

definition say :: "ytdlp_msg \<Rightarrow> ytdlp_state \<Rightarrow> ytdlp_state" where
  "say m st = st\<lparr>printed := printed st @ [m]\<rparr>"

text \<open>
  The body of \<open>for line in video_lines\<close>. \<open>loads\<close> is \<open>json.loads\<close>, with \<open>None\<close> for
  \<open>JSONDecodeError\<close>; the handler catches that and \<open>KeyError\<close> only, so \<open>AttributeError\<close>
  (\<open>.get\<close> on a value that is no dict) and \<open>TypeError\<close> leave the function.
\<close>

definition process_line ::
  "(string \<Rightarrow> json option) \<Rightarrow> int \<Rightarrow> ytdlp_state \<Rightarrow> string \<Rightarrow> pyerr + ytdlp_state" where
  "process_line loads min_duration_seconds st line =
     (case loads line of
        None \<Rightarrow> Inr (say WarnCouldNotParse st)
      | Some (JObj video_meta) \<Rightarrow>
          (let duration = dict_get video_meta ''duration'' in
           if duration \<noteq> JNull then
             (case duration_number duration of
                Inl e \<Rightarrow> Inl e
              | Inr d \<Rightarrow>
                  if d \<ge> min_duration_seconds then
                    (let st' = st\<lparr>total_seconds := total_seconds st + d,
                                   included_videos_count := included_videos_count st + 1\<rparr>;
                         video_url = dict_get video_meta ''webpage_url''
                     in if py_truthy video_url
                        then Inr (st'\<lparr>included_video_links := included_video_links st' @ [video_url]\<rparr>)
                        else Inr st')
                  else Inr st)
           else Inr (say (WarnNoDuration (dict_get_default video_meta ''title'' (JStr ''N/A''))) st))
      | Some _ \<Rightarrow> Inl AttributeError)"

fun process_lines ::
  "(string \<Rightarrow> json option) \<Rightarrow> int \<Rightarrow> ytdlp_state \<Rightarrow> string list \<Rightarrow> pyerr + ytdlp_state" where
  "process_lines loads m st [] = Inr st"
| "process_lines loads m st (line # lines) =
     (case process_line loads m st line of
        Inl e \<Rightarrow> Inl e
      | Inr st' \<Rightarrow> process_lines loads m st' lines)"

text \<open>
  \<open>f.write(link + '\n')\<close> for each link: a link that is no string raises \<open>TypeError\<close>,
  which the handler for \<open>IOError\<close> does not catch.
\<close>

fun write_links :: "json list \<Rightarrow> pyerr + string" where
  "write_links [] = Inr []"
| "write_links (JStr link # links) =
     (case write_links links of Inl e \<Rightarrow> Inl e | Inr rest \<Rightarrow> Inr (link @ [newline] @ rest))"
| "write_links (_ # links) = Inl TypeError"

text \<open>
  What a call leaves behind: the value returned (\<open>None\<close> when the tool could not be run),
  the console, the file written, and the locals the report is made of (all zero when the
  function returned before it set them).
\<close>

record ytdlp_run =
  returned :: "string option"
  console :: "ytdlp_msg list"
  written :: "(string \<times> string) option"
  total_videos_found :: nat
  videos_included :: nat
  seconds_total :: int

text \<open>
  The function. \<open>run\<close> is the outcome of the subprocess, \<open>writable\<close> says whether
  \<open>open(save_file, 'w')\<close> succeeds.
\<close>

definition get_playlist_duration_ytdlp ::
  "(string \<Rightarrow> json option) \<Rightarrow> proc_result \<Rightarrow> (string \<Rightarrow> bool) \<Rightarrow> int \<Rightarrow> string option
     \<Rightarrow> pyerr + ytdlp_run" where
  "get_playlist_duration_ytdlp loads run writable min_duration_minutes save_file =
     (let min_duration_seconds = min_duration_minutes * 60;
          out0 = [MsgFetching] @ (if min_duration_seconds > 0 then [MsgFilterActive min_duration_minutes] else [])
      in case run of
           FileNotFound \<Rightarrow>
             Inr \<lparr>returned = None, console = out0 @ [MsgToolNotFound, MsgInstallHint], written = None,
                  total_videos_found = 0, videos_included = 0, seconds_total = 0\<rparr>
         | CalledProcessError err \<Rightarrow>
             Inr \<lparr>returned = None, console = out0 @ [MsgRunError err], written = None,
                  total_videos_found = 0, videos_included = 0, seconds_total = 0\<rparr>
         | Completed stdout \<Rightarrow>
             (let video_lines = py_split newline (py_strip stdout);
                  found = length video_lines;
                  st0 = \<lparr>total_seconds = 0, included_videos_count = 0, included_video_links = [],
                         printed = out0 @ [MsgFound found]\<rparr>
              in case process_lines loads min_duration_seconds st0 video_lines of
                   Inl e \<Rightarrow> Inl e
                 | Inr st \<Rightarrow>
                     (let st1 = say (MsgSummary found (included_videos_count st)
                                  (if min_duration_seconds > 0 then Some min_duration_minutes else None)) st;
                          finish = (\<lambda>st2 file.
                             Inr \<lparr>returned = Some (format_total_ytdlp (total_seconds st2)),
                                  console = printed st2, written = file,
                                  total_videos_found = found,
                                  videos_included = included_videos_count st2,
                                  seconds_total = total_seconds st2\<rparr>)
                      in case save_file of
                           None \<Rightarrow> finish st1 None
                         | Some name \<Rightarrow>
                             if name \<noteq> [] \<and> included_video_links st1 \<noteq> [] then
                               (let st2 = say (MsgSaving (length (included_video_links st1)) name) st1
                                in if writable name then
                                     (case write_links (included_video_links st2) of
                                        Inl e \<Rightarrow> Inl e
                                      | Inr content \<Rightarrow> finish (say MsgSaved st2) (Some (name, content)))
                                   else finish (say (MsgSaveError name) st2) None)
                             else finish st1 None)))"

text \<open>
  The reading of the aggregate that the specification gives: the durations of the records
  that are included, a record being included when its duration is known and at least the
  minimum.
\<close>

definition known_duration :: "(string \<Rightarrow> json option) \<Rightarrow> string \<Rightarrow> int option" where
  "known_duration loads line =
     (case loads line of
        Some (JObj video_meta) \<Rightarrow>
          (case duration_number (dict_get video_meta ''duration'') of Inl _ \<Rightarrow> None | Inr d \<Rightarrow> Some d)
      | _ \<Rightarrow> None)"

definition included_durations :: "(string \<Rightarrow> json option) \<Rightarrow> int \<Rightarrow> string list \<Rightarrow> int list" where
  "included_durations loads m lines = filter (\<lambda>d. m \<le> d) (List.map_filter (known_duration loads) lines)"

section \<open>The paginated API strategy: \<open>youtube_duration_calculator_api.py\<close>\<close>

text \<open>
  Of this script the model keeps what each function returns or raises. What it prints on
  the way is left out: the only messages it has are the reports of a failed remote call
  and of a skipped source, and the final report of the numbers modelled here.
\<close>

subsection \<open>\<open>parse_url\<close>\<close>

text \<open>The character classes \<open>[a-zA-Z0-9_-]\<close> and \<open>[a-zA-Z0-9_.-]\<close>.\<close>

definition id_char :: "char \<Rightarrow> bool" where
  "id_char c =
     (let n = (of_char c :: nat)
      in (97 \<le> n \<and> n \<le> 122) \<or> (65 \<le> n \<and> n \<le> 90) \<or> (48 \<le> n \<and> n \<le> 57)
         \<or> c = CHR ''_'' \<or> c = CHR ''-'')"

definition channel_char :: "char \<Rightarrow> bool" where
  "channel_char c = (id_char c \<or> c = CHR ''.'')"

text \<open>
  \<open>re.search\<close>: the pattern is tried at every position from the left, the end of the string
  included, and the first position where it matches wins. \<open>at\<close> matches the pattern at
  the start of its argument and gives the group the caller reads.
\<close>

fun re_search :: "(string \<Rightarrow> string option) \<Rightarrow> string \<Rightarrow> string option" where
  "re_search at [] = at []"
| "re_search at (c # cs) = (case at (c # cs) of Some g \<Rightarrow> Some g | None \<Rightarrow> re_search at cs)"

text \<open>A literal at the start of the string: the rest of the string when it is there.\<close>

definition literal :: "string \<Rightarrow> string \<Rightarrow> string option" where
  "literal lit s = (if take (length lit) s = lit then Some (drop (length lit) s) else None)"

text \<open>\<open>list=([a-zA-Z0-9_-]+)\<close>: group 1 is the longest run of the class after the literal.\<close>

definition playlist_at :: "string \<Rightarrow> string option" where
  "playlist_at s =
     (case literal ''list='' s of
        None \<Rightarrow> None
      | Some rest \<Rightarrow> (if takeWhile id_char rest \<noteq> [] then Some (takeWhile id_char rest) else None))"

text \<open>An alternation of literals followed by the rest of the pattern, tried in order.\<close>

fun alternatives :: "string list \<Rightarrow> (string \<Rightarrow> string option) \<Rightarrow> string \<Rightarrow> string option" where
  "alternatives [] rest s = None"
| "alternatives (lit # lits) rest s =
     (case (case literal lit s of None \<Rightarrow> None | Some s' \<Rightarrow> rest s') of
        Some g \<Rightarrow> Some g
      | None \<Rightarrow> alternatives lits rest s)"

text \<open>\<open>(?:watch\?v=|youtu\.be/|embed/)([a-zA-Z0-9_-]{11})\<close>.\<close>

definition eleven_id_chars :: "string \<Rightarrow> string option" where
  "eleven_id_chars s =
     (if 11 \<le> length s \<and> list_all id_char (take 11 s) then Some (take 11 s) else None)"

definition video_at :: "string \<Rightarrow> string option" where
  "video_at s = alternatives [''watch?v='', ''youtu.be/'', ''embed/''] eleven_id_chars s"

text \<open>\<open>/(channel|c|@)/([a-zA-Z0-9_.-]+)\<close>: the caller reads group 2.\<close>

definition channel_run :: "string \<Rightarrow> string option" where
  "channel_run s = (if takeWhile channel_char s \<noteq> [] then Some (takeWhile channel_char s) else None)"

definition channel_at :: "string \<Rightarrow> string option" where
  "channel_at s = alternatives [''/channel/'', ''/c/'', ''/@/''] channel_run s"

datatype url_type = Playlist | Video | Channel

definition parse_url :: "string \<Rightarrow> url_type option \<times> string option" where
  "parse_url url =
     (case re_search playlist_at url of
        Some g \<Rightarrow> (Some Playlist, Some g)
      | None \<Rightarrow>
          (case re_search video_at url of
             Some g \<Rightarrow> (Some Video, Some g)
           | None \<Rightarrow>
               (case re_search channel_at url of
                  Some g \<Rightarrow> (Some Channel, Some g)
                | None \<Rightarrow> (None, None))))"

subsection \<open>The remote service\<close>

text \<open>
  The service object is a black box. Each of its calls either raises or returns a
  response, of which the model keeps the fields the script reads; a field that is absent
  (a \<open>KeyError\<close> when the script subscripts it) is \<open>None\<close>.
  \<^item> \<open>playlistItems_list playlist_id page_token\<close>: one page of a playlist, each item's
    \<open>contentDetails.videoId\<close>, and \<open>nextPageToken\<close>;
  \<^item> \<open>videos_list ids\<close>: one batch of videos for the comma-separated identifiers;
  \<^item> \<open>channels_list id forUsername\<close>: per item, \<open>contentDetails.relatedPlaylists.uploads\<close>;
  \<^item> \<open>search_channel q\<close>: per item, \<open>id.channelId\<close>.
\<close>

record playlist_page =
  page_items :: "string option list"
  nextPageToken :: "string option"

text \<open>
  An item of \<open>videos().list\<close>: its \<open>id\<close>, and its \<open>contentDetails\<close> when present, with the
  \<open>duration\<close> string inside when present.
\<close>

record video_item =
  item_id :: "string option"
  contentDetails :: "string option option"

record youtube =
  playlistItems_list :: "string \<Rightarrow> string option \<Rightarrow> pyerr + playlist_page"
  videos_list :: "string \<Rightarrow> pyerr + video_item list"
  channels_list :: "string option \<Rightarrow> string option \<Rightarrow> pyerr + string option list"
  search_channel :: "string \<Rightarrow> pyerr + string option list"

text \<open>\<open>','.join(chunk)\<close>.\<close>

fun join_comma :: "string list \<Rightarrow> string" where
  "join_comma [] = []"
| "join_comma [x] = x"
| "join_comma (x # y # ys) = x @ '','' @ join_comma (y # ys)"

text \<open>\<open>if not token\<close>: \<open>None\<close> and the empty string are false.\<close>

definition no_token :: "string option \<Rightarrow> bool" where
  "no_token t = (t = None \<or> t = Some [])"

subsection \<open>\<open>get_uploads_playlist_id\<close>\<close>

text \<open>The handler of the function: \<open>HttpError\<close> gives \<open>None\<close>, anything else is raised on.\<close>

definition uploads_of_items :: "string option list \<Rightarrow> pyerr + string option" where
  "uploads_of_items items =
     (case items of
        [] \<Rightarrow> Inr None
      | None # _ \<Rightarrow> Inl KeyError
      | Some uploads # _ \<Rightarrow> Inr (Some uploads))"

definition starts_with :: "string \<Rightarrow> string \<Rightarrow> bool" where
  "starts_with p s = (take (length p) s = p)"

definition get_uploads_playlist_id_body :: "youtube \<Rightarrow> string \<Rightarrow> pyerr + string option" where
  "get_uploads_playlist_id_body yt h =
     (case channels_list yt
             (if starts_with ''UC'' h then Some h else None)
             (if \<not> starts_with ''@'' h \<and> \<not> starts_with ''UC'' h then Some h else None) of
        Inl e \<Rightarrow> Inl e
      | Inr items \<Rightarrow>
          if items = [] \<and> starts_with ''@'' h then
            (case search_channel yt h of
               Inl e \<Rightarrow> Inl e
             | Inr [] \<Rightarrow> Inr None
             | Inr (None # _) \<Rightarrow> Inl KeyError
             | Inr (Some channel_id # _) \<Rightarrow>
                 (case channels_list yt (Some channel_id) None of
                    Inl e \<Rightarrow> Inl e
                  | Inr items' \<Rightarrow> uploads_of_items items'))
          else uploads_of_items items)"

definition get_uploads_playlist_id :: "youtube \<Rightarrow> string \<Rightarrow> pyerr + string option" where
  "get_uploads_playlist_id yt h =
     (case get_uploads_playlist_id_body yt h of
        Inl e \<Rightarrow> (if e = HttpError then Inr None else Inl e)
      | Inr r \<Rightarrow> Inr r)"

subsection \<open>\<open>get_playlist_video_ids\<close>\<close>

text \<open>
  The \<open>while True\<close> loop. It stops when a page has no continuation token or a call
  raises; a service that always returns a token keeps it running, which is the value
  \<open>None\<close> here. On \<open>HttpError\<close> the function returns the empty list, not what it has
  collected.
\<close>

partial_function (option) get_playlist_video_ids_loop ::
  "youtube \<Rightarrow> string \<Rightarrow> string list \<Rightarrow> string option \<Rightarrow> (pyerr + string list) option" where
  "get_playlist_video_ids_loop yt playlist_id video_ids next_page_token =
     (case playlistItems_list yt playlist_id next_page_token of
        Inl e \<Rightarrow> (if e = HttpError then Some (Inr []) else Some (Inl e))
      | Inr response \<Rightarrow>
          (case those (page_items response) of
             None \<Rightarrow> Some (Inl KeyError)
           | Some ids \<Rightarrow>
               if no_token (nextPageToken response) then Some (Inr (video_ids @ ids))
               else get_playlist_video_ids_loop yt playlist_id (video_ids @ ids) (nextPageToken response)))"

definition get_playlist_video_ids :: "youtube \<Rightarrow> string \<Rightarrow> (pyerr + string list) option" where
  "get_playlist_video_ids yt playlist_id = get_playlist_video_ids_loop yt playlist_id [] None"

subsection \<open>\<open>get_videos_duration\<close>\<close>

text \<open>The three values the function returns, which are also the locals of its loops.\<close>

record duration_acc =
  total_duration :: int
  included_links :: "string list"
  included_count :: nat

text \<open>
  The body of \<open>for item in response.get('items', [])\<close>. \<open>parse_duration\<close> is
  \<open>isodate.parse_duration\<close>, giving seconds, with \<open>None\<close> where it raises. Nothing here is
  caught: a missing field or a string that does not parse leaves the function.
\<close>

definition duration_item ::
  "(string \<Rightarrow> int option) \<Rightarrow> int \<Rightarrow> bool \<Rightarrow> duration_acc \<Rightarrow> video_item \<Rightarrow> pyerr + duration_acc" where
  "duration_item parse_duration min_duration_td save_links acc item =
     (case contentDetails item of
        None \<Rightarrow> Inl KeyError
      | Some None \<Rightarrow> Inl KeyError
      | Some (Some duration_iso) \<Rightarrow>
          (case parse_duration duration_iso of
             None \<Rightarrow> Inl ISO8601Error
           | Some duration_td \<Rightarrow>
               if duration_td \<ge> min_duration_td then
                 (let acc' = acc\<lparr>total_duration := total_duration acc + duration_td,
                                 included_count := included_count acc + 1\<rparr>
                  in if save_links then
                       (case item_id item of
                          None \<Rightarrow> Inl KeyError
                        | Some i \<Rightarrow>
                            Inr (acc'\<lparr>included_links :=
                                        included_links acc' @ [''https://www.youtube.com/watch?v='' @ i]\<rparr>))
                     else Inr acc')
               else Inr acc))"

fun duration_items ::
  "(string \<Rightarrow> int option) \<Rightarrow> int \<Rightarrow> bool \<Rightarrow> duration_acc \<Rightarrow> video_item list \<Rightarrow> pyerr + duration_acc" where
  "duration_items pd m sl acc [] = Inr acc"
| "duration_items pd m sl acc (item # items) =
     (case duration_item pd m sl acc item of
        Inl e \<Rightarrow> Inl e
      | Inr acc' \<Rightarrow> duration_items pd m sl acc' items)"

text \<open>\<open>video_ids[i:i+50]\<close> for \<open>i\<close> in \<open>range(0, len(video_ids), 50)\<close>.\<close>

function chunks50 :: "'a list \<Rightarrow> 'a list list" where
  "chunks50 xs = (if xs = [] then [] else take 50 xs # chunks50 (drop 50 xs))"
  by pat_completeness auto
termination
  by (relation "measure length") auto

declare chunks50.simps [simp del]

text \<open>
  The loop over the chunks: \<open>HttpError\<close> from the call is caught and the loop goes on with
  the next chunk; any other exception leaves the function.
\<close>

fun duration_chunks ::
  "youtube \<Rightarrow> (string \<Rightarrow> int option) \<Rightarrow> int \<Rightarrow> bool \<Rightarrow> duration_acc \<Rightarrow> string list list
     \<Rightarrow> pyerr + duration_acc" where
  "duration_chunks yt pd m sl acc [] = Inr acc"
| "duration_chunks yt pd m sl acc (chunk # chunks) =
     (case videos_list yt (join_comma chunk) of
        Inl e \<Rightarrow> (if e = HttpError then duration_chunks yt pd m sl acc chunks else Inl e)
      | Inr items \<Rightarrow>
          (case duration_items pd m sl acc items of
             Inl e \<Rightarrow> Inl e
           | Inr acc' \<Rightarrow> duration_chunks yt pd m sl acc' chunks))"

definition get_videos_duration ::
  "youtube \<Rightarrow> (string \<Rightarrow> int option) \<Rightarrow> string list \<Rightarrow> int \<Rightarrow> bool \<Rightarrow> pyerr + duration_acc" where
  "get_videos_duration yt parse_duration video_ids min_duration_minutes save_links =
     duration_chunks yt parse_duration (60 * min_duration_minutes) save_links
       \<lparr>total_duration = 0, included_links = [], included_count = 0\<rparr>
       (chunks50 video_ids)"

subsection \<open>The loop of \<open>main\<close> over the sources\<close>

record report =
  grand_total_duration :: int
  total_videos_found_all :: nat
  total_videos_included :: nat
  all_included_links :: "string list"

text \<open>
  The identifiers of one source: \<open>None\<close> in the middle stands for the two \<open>continue\<close>
  statements that skip the source (no kind, no uploads playlist).
\<close>

definition source_video_ids :: "youtube \<Rightarrow> string \<Rightarrow> (pyerr + string list option) option" where
  "source_video_ids yt url =
     (case parse_url url of
        (Some Video, Some entity_id) \<Rightarrow> Some (Inr (Some [entity_id]))
      | (Some Channel, Some entity_id) \<Rightarrow>
          (case get_uploads_playlist_id yt entity_id of
             Inl e \<Rightarrow> Some (Inl e)
           | Inr None \<Rightarrow> Some (Inr None)
           | Inr (Some playlist_id) \<Rightarrow>
               if playlist_id = [] then Some (Inr None)
               else map_option (map_sum id Some) (get_playlist_video_ids yt playlist_id))
      | (Some Playlist, Some entity_id) \<Rightarrow>
          map_option (map_sum id Some) (get_playlist_video_ids yt entity_id)
      | _ \<Rightarrow> Some (Inr None))"

definition process_source ::
  "youtube \<Rightarrow> (string \<Rightarrow> int option) \<Rightarrow> int \<Rightarrow> bool \<Rightarrow> report \<Rightarrow> string \<Rightarrow> (pyerr + report) option" where
  "process_source yt pd min_duration save_links rep url =
     (case source_video_ids yt url of
        None \<Rightarrow> None
      | Some (Inl e) \<Rightarrow> Some (Inl e)
      | Some (Inr None) \<Rightarrow> Some (Inr rep)
      | Some (Inr (Some video_ids)) \<Rightarrow>
          if video_ids = [] then Some (Inr rep)
          else
            (case get_videos_duration yt pd video_ids min_duration save_links of
               Inl e \<Rightarrow> Some (Inl e)
             | Inr acc \<Rightarrow>
                 Some (Inr (rep\<lparr>grand_total_duration := grand_total_duration rep + total_duration acc,
                                total_videos_found_all := total_videos_found_all rep + length video_ids,
                                total_videos_included := total_videos_included rep + included_count acc,
                                all_included_links :=
                                  (if save_links then all_included_links rep @ included_links acc
                                   else all_included_links rep)\<rparr>))))"

fun main_loop ::
  "youtube \<Rightarrow> (string \<Rightarrow> int option) \<Rightarrow> int \<Rightarrow> bool \<Rightarrow> report \<Rightarrow> string list \<Rightarrow> (pyerr + report) option" where
  "main_loop yt pd m sl rep [] = Some (Inr rep)"
| "main_loop yt pd m sl rep (url # urls) =
     (case process_source yt pd m sl rep url of
        None \<Rightarrow> None
      | Some (Inl e) \<Rightarrow> Some (Inl e)
      | Some (Inr rep') \<Rightarrow> main_loop yt pd m sl rep' urls)"

definition aggregate ::
  "youtube \<Rightarrow> (string \<Rightarrow> int option) \<Rightarrow> int \<Rightarrow> bool \<Rightarrow> string list \<Rightarrow> (pyerr + report) option" where
  "aggregate yt pd m sl urls =
     main_loop yt pd m sl
       \<lparr>grand_total_duration = 0, total_videos_found_all = 0, total_videos_included = 0,
        all_included_links = []\<rparr> urls"

subsection \<open>The aggregate as the specification reads it\<close>

text \<open>
  The duration of a fetched record when it is known, the records a batch brings (none when
  the call fails), the records fetched for a list of identifiers and for a source, and the
  durations of the records that are included for a minimum.
\<close>

definition item_duration :: "(string \<Rightarrow> int option) \<Rightarrow> video_item \<Rightarrow> int option" where
  "item_duration pd item =
     (case contentDetails item of Some (Some duration_iso) \<Rightarrow> pd duration_iso | _ \<Rightarrow> None)"

definition included_item_durations :: "(string \<Rightarrow> int option) \<Rightarrow> int \<Rightarrow> video_item list \<Rightarrow> int list" where
  "included_item_durations pd m items = filter (\<lambda>d. m \<le> d) (List.map_filter (item_duration pd) items)"

definition batch_items :: "youtube \<Rightarrow> string list \<Rightarrow> video_item list" where
  "batch_items yt chunk = (case videos_list yt (join_comma chunk) of Inl _ \<Rightarrow> [] | Inr items \<Rightarrow> items)"

definition fetched_items :: "youtube \<Rightarrow> string list \<Rightarrow> video_item list" where
  "fetched_items yt video_ids = concat (map (batch_items yt) (chunks50 video_ids))"


subsection \<open>What a link contains, as the specification reads it\<close>

text \<open>
  Each predicate says that a string starts with the pattern and names the identifier in it.
  A playlist parameter is \<open>list=\<close> followed by the longest run, at least one, of identifier
  characters; a video identifier is eleven identifier characters after \<open>watch?v=\<close>,
  \<open>youtu.be/\<close> or \<open>embed/\<close>; a channel segment is \<open>/channel/\<close>, \<open>/c/\<close> or \<open>/@/\<close>
  followed by the longest run, at least one, of characters of a channel name.
\<close>

definition playlist_param :: "string \<Rightarrow> string \<Rightarrow> bool" where
  "playlist_param s g =
     (\<exists>rest. s = ''list='' @ g @ rest \<and> g \<noteq> [] \<and> list_all id_char g
        \<and> (rest = [] \<or> \<not> id_char (hd rest)))"

definition video_token :: "string \<Rightarrow> string \<Rightarrow> bool" where
  "video_token s g =
     (\<exists>p rest. s = p @ g @ rest \<and> p \<in> set [''watch?v='', ''youtu.be/'', ''embed/'']
        \<and> length g = 11 \<and> list_all id_char g)"

definition channel_segment :: "string \<Rightarrow> string \<Rightarrow> bool" where
  "channel_segment s g =
     (\<exists>p rest. s = p @ g @ rest \<and> p \<in> set [''/channel/'', ''/c/'', ''/@/'']
        \<and> g \<noteq> [] \<and> list_all channel_char g \<and> (rest = [] \<or> \<not> channel_char (hd rest)))"

text \<open>
  A pattern occurs in a string when some suffix starts with it; its first occurrence is the
  one that no other occurrence starts before.
\<close>

definition occurs :: "(string \<Rightarrow> string \<Rightarrow> bool) \<Rightarrow> string \<Rightarrow> bool" where
  "occurs P s = (\<exists>pre suf g. s = pre @ suf \<and> P suf g)"

definition first_occurrence :: "(string \<Rightarrow> string \<Rightarrow> bool) \<Rightarrow> string \<Rightarrow> string \<Rightarrow> bool" where
  "first_occurrence P s g =
     (\<exists>pre suf. s = pre @ suf \<and> P suf g
        \<and> (\<forall>pre' suf' g'. s = pre' @ suf' \<and> P suf' g' \<longrightarrow> length pre \<le> length pre'))"

section \<open>The search script: \<open>search/scripts/youtube-search-api.py\<close>\<close>

text \<open>
  \<open>search_youtube\<close> is modelled by what it returns or raises and by the search calls it
  makes; the description of the search that it prints first is left out. \<open>save_results\<close>
  is modelled with the file system and the message it prints.
\<close>

subsection \<open>The remote service\<close>

text \<open>
  The keyword arguments of \<open>youtube.search().list\<close>. \<open>regionCode\<close> and \<open>videoDuration\<close>
  are \<open>None\<close> when the script does not pass them.
\<close>

record search_params =
  q :: string
  relevanceLanguage :: string
  regionCode :: "string option"
  videoDuration :: "string option"
  maxResults :: int
  pageToken :: "string option"

text \<open>
  An item of a search response: \<open>id.videoId\<close>, \<open>snippet.title\<close> and
  \<open>snippet.channelTitle\<close>, each \<open>None\<close> when absent.
\<close>

record search_item =
  id_videoId :: "string option"
  snippet_title :: "string option"
  snippet_channelTitle :: "string option"

record search_response =
  search_items :: "search_item list"
  search_nextPageToken :: "string option"

record search_service =
  search_list :: "search_params \<Rightarrow> pyerr + search_response"
  details_list :: "string \<Rightarrow> pyerr + video_item list"

text \<open>The dict that the script builds for each result.\<close>

record search_result =
  title :: string
  channel :: string
  duration :: string
  url :: string
  videoId :: string

subsection \<open>\<open>search_youtube\<close>\<close>

text \<open>\<open>xs[:n]\<close> for an integer \<open>n\<close>: a negative \<open>n\<close> counts from the end.\<close>

definition py_take :: "int \<Rightarrow> 'a list \<Rightarrow> 'a list" where
  "py_take n xs = (if 0 \<le> n then take (nat n) xs else take (length xs - nat (- n)) xs)"

text \<open>
  \<open>{item['id']: item for item in items}\<close>: an item without \<open>id\<close> raises, and of two items
  with one \<open>id\<close> the later one stays.
\<close>

definition details_dict :: "video_item list \<Rightarrow> pyerr + (string \<rightharpoonup> video_item)" where
  "details_dict items =
     (case those (map item_id items) of
        None \<Rightarrow> Inl KeyError
      | Some ids \<Rightarrow> Inr (map_of (rev (zip ids items))))"

text \<open>How the loop over the items of a page ends: at its end, or at the \<open>return\<close> inside.\<close>

datatype 'a flow = Continue 'a | Return 'a

fun filter_items ::
  "(string \<Rightarrow> int option) \<Rightarrow> int \<Rightarrow> int \<Rightarrow> (string \<rightharpoonup> video_item) \<Rightarrow> search_result list
     \<Rightarrow> search_item list \<Rightarrow> pyerr + search_result list flow" where
  "filter_items pd min_duration_td max_results video_details final_results [] =
     Inr (Continue final_results)"
| "filter_items pd min_duration_td max_results video_details final_results (search_item # rest) =
     (case id_videoId search_item of
        None \<Rightarrow> Inl KeyError
      | Some video_id \<Rightarrow>
          (case video_details video_id of
             None \<Rightarrow> filter_items pd min_duration_td max_results video_details final_results rest
           | Some details \<Rightarrow>
               (case contentDetails details of
                  None \<Rightarrow> Inl KeyError
                | Some d \<Rightarrow>
                    (case pd (case d of None \<Rightarrow> ''PT0S'' | Some duration_iso \<Rightarrow> duration_iso) of
                       None \<Rightarrow> Inl ISO8601Error
                     | Some duration_td \<Rightarrow>
                         if duration_td \<ge> min_duration_td then
                           (case snippet_title search_item of
                              None \<Rightarrow> Inl KeyError
                            | Some t \<Rightarrow>
                                (case snippet_channelTitle search_item of
                                   None \<Rightarrow> Inl KeyError
                                 | Some ch \<Rightarrow>
                                     (let final_results' = final_results @
                                            [\<lparr>title = t, channel = ch,
                                              duration = format_timedelta_search duration_td,
                                              url = ''https://www.youtube.com/watch?v='' @ video_id,
                                              videoId = video_id\<rparr>]
                                      in if int (length final_results') \<ge> max_results
                                         then Inr (Return (py_take max_results final_results'))
                                         else filter_items pd min_duration_td max_results video_details
                                                final_results' rest)))
                         else filter_items pd min_duration_td max_results video_details
                                final_results rest))))"

text \<open>
  \<open>for _ in range(5)\<close>, with the number of rounds left as the first argument. The list of
  the search calls made so far is carried along and returned, so that the number of pages
  requested can be read off the result.
\<close>

fun search_pages ::
  "nat \<Rightarrow> search_service \<Rightarrow> (string \<Rightarrow> int option) \<Rightarrow> search_params \<Rightarrow> int \<Rightarrow> int
     \<Rightarrow> search_result list \<Rightarrow> string option \<Rightarrow> search_params list
     \<Rightarrow> search_params list \<times> (pyerr + search_result list)" where
  "search_pages 0 svc pd params min_duration_td max_results final_results next_page_token calls =
     (calls, Inr (py_take max_results final_results))"
| "search_pages (Suc n) svc pd params min_duration_td max_results final_results next_page_token calls =
     (let request = params\<lparr>pageToken := next_page_token\<rparr>;
          calls' = calls @ [request]
      in case search_list svc request of
           Inl e \<Rightarrow>
             (if e = HttpError then (calls', Inr (py_take max_results final_results))
              else (calls', Inl e))
         | Inr search_response \<Rightarrow>
             (case those (map id_videoId (search_items search_response)) of
                None \<Rightarrow> (calls', Inl KeyError)
              | Some video_ids \<Rightarrow>
                  if video_ids = [] then (calls', Inr (py_take max_results final_results))
                  else
                    (case details_list svc (join_comma video_ids) of
                       Inl e \<Rightarrow>
                         (if e = HttpError then (calls', Inr (py_take max_results final_results))
                          else (calls', Inl e))
                     | Inr items \<Rightarrow>
                         (case details_dict items of
                            Inl e \<Rightarrow> (calls', Inl e)
                          | Inr video_details \<Rightarrow>
                              (case filter_items pd min_duration_td max_results video_details
                                      final_results (search_items search_response) of
                                 Inl e \<Rightarrow> (calls', Inl e)
                               | Inr (Return results) \<Rightarrow> (calls', Inr results)
                               | Inr (Continue final_results') \<Rightarrow>
                                   if no_token (search_nextPageToken search_response)
                                   then (calls', Inr (py_take max_results final_results'))
                                   else search_pages n svc pd params min_duration_td max_results
                                          final_results' (search_nextPageToken search_response)
                                          calls')))))"

text \<open>
  The branch for the built-in duration filters: one search call, one call for the details.
\<close>

definition durations_dict ::
  "(string \<Rightarrow> int option) \<Rightarrow> video_item list \<Rightarrow> pyerr + (string \<times> string) list" where
  "durations_dict pd items =
     fold (\<lambda>item acc.
        case acc of
          Inl e \<Rightarrow> Inl e
        | Inr kvs \<Rightarrow>
            (case item_id item of
               None \<Rightarrow> Inl KeyError
             | Some i \<Rightarrow>
                 (case contentDetails item of
                    None \<Rightarrow> Inl KeyError
                  | Some d \<Rightarrow>
                      (case pd (case d of None \<Rightarrow> ''PT0S'' | Some duration_iso \<Rightarrow> duration_iso) of
                         None \<Rightarrow> Inl ISO8601Error
                       | Some td \<Rightarrow> Inr ((i, format_timedelta_search td) # kvs)))))
       items (Inr [])"

fun default_results :: "(string \<times> string) list \<Rightarrow> search_item list \<Rightarrow> pyerr + search_result list" where
  "default_results video_durations [] = Inr []"
| "default_results video_durations (item # rest) =
     (case (snippet_title item, snippet_channelTitle item, id_videoId item) of
        (Some t, Some ch, Some video_id) \<Rightarrow>
          (case default_results video_durations rest of
             Inl e \<Rightarrow> Inl e
           | Inr rs \<Rightarrow>
               Inr (\<lparr>title = t, channel = ch,
                     duration = (case map_of video_durations video_id of
                                   None \<Rightarrow> ''[N/A]'' | Some s \<Rightarrow> s),
                     url = ''https://www.youtube.com/watch?v='' @ video_id,
                     videoId = video_id\<rparr> # rs))
      | _ \<Rightarrow> Inl KeyError)"

definition search_default ::
  "search_service \<Rightarrow> (string \<Rightarrow> int option) \<Rightarrow> search_params
     \<Rightarrow> search_params list \<times> (pyerr + search_result list)" where
  "search_default svc pd request =
     (case search_list svc request of
        Inl e \<Rightarrow> (if e = HttpError then ([request], Inr []) else ([request], Inl e))
      | Inr search_response \<Rightarrow>
          if search_items search_response = [] then ([request], Inr [])
          else
            (case those (map id_videoId (search_items search_response)) of
               None \<Rightarrow> ([request], Inl KeyError)
             | Some video_ids \<Rightarrow>
                 (case details_list svc (join_comma video_ids) of
                    Inl e \<Rightarrow> (if e = HttpError then ([request], Inr []) else ([request], Inl e))
                  | Inr items \<Rightarrow>
                      (case durations_dict pd items of
                         Inl e \<Rightarrow> ([request], Inl e)
                       | Inr video_durations \<Rightarrow>
                           ([request], default_results video_durations (search_items search_response))))))"

text \<open>
  The function: the search calls it made, and what it returned or raised.
  \<open>if min_duration_minutes\<close> is false for \<open>None\<close> and for 0, \<open>if country\<close> for \<open>None\<close> and
  the empty string.
\<close>

definition search_youtube ::
  "search_service \<Rightarrow> (string \<Rightarrow> int option) \<Rightarrow> string \<Rightarrow> string \<Rightarrow> string option \<Rightarrow> string
     \<Rightarrow> int \<Rightarrow> int option \<Rightarrow> search_params list \<times> (pyerr + search_result list)" where
  "search_youtube svc pd query language country duration_category max_results min_duration_minutes =
     (let region = (if country = None \<or> country = Some [] then None else country)
      in case min_duration_minutes of
           Some m \<Rightarrow>
             if m \<noteq> 0 then
               search_pages 5 svc pd
                 \<lparr>q = query, relevanceLanguage = language, regionCode = region,
                  videoDuration = None, maxResults = 50, pageToken = None\<rparr>
                 (60 * m) max_results [] None []
             else
               search_default svc pd
                 \<lparr>q = query, relevanceLanguage = language, regionCode = region,
                  videoDuration = Some duration_category, maxResults = max_results, pageToken = None\<rparr>
         | None \<Rightarrow>
             search_default svc pd
               \<lparr>q = query, relevanceLanguage = language, regionCode = region,
                videoDuration = Some duration_category, maxResults = max_results, pageToken = None\<rparr>)"

subsection \<open>\<open>save_results\<close>\<close>









section \<open>Formatting: proofs\<close>

lemma str_nat_small: "n < 10 \<Longrightarrow> str_nat n = [digit_char n]"
  by (subst str_nat.simps) simp

lemma str_nat_two: "10 \<le> n \<Longrightarrow> n < 100 \<Longrightarrow> str_nat n = [digit_char (n div 10), digit_char (n mod 10)]"
proof -
  assume a: "10 \<le> n" and b: "n < 100"
  from b have "n div 10 < 10" by simp
  then have "str_nat (n div 10) = [digit_char (n div 10)]" by (rule str_nat_small)
  with a show ?thesis by (subst str_nat.simps) simp
qed

lemma digit_char_0: "digit_char 0 = CHR ''0''"
  by (simp add: digit_char_def)

lemma fmt02_two_digits:
  assumes "0 \<le> k" and "k < 100"
  shows "fmt02 k = two_digits k"
proof (cases "k < 10")
  case True
  with assms have "str_nat (nat k) = [digit_char (nat k)]" by (intro str_nat_small) simp
  moreover from True assms have "nat k div 10 = 0" and "nat k mod 10 = nat k" by simp_all
  ultimately show ?thesis
    using assms by (simp add: fmt02_def str_int_def two_digits_def digit_char_0)
next
  case False
  with assms have "str_nat (nat k) = [digit_char (nat k div 10), digit_char (nat k mod 10)]"
    by (intro str_nat_two) simp_all
  then show ?thesis
    using assms by (simp add: fmt02_def str_int_def two_digits_def)
qed

lemma fmt02_wide:
  assumes "100 \<le> k"
  shows "fmt02 k = str_int k"
proof -
  let ?n = "nat k"
  from assms have n: "\<not> ?n < 10" and n': "\<not> ?n div 10 < 10" by simp_all
  have "str_nat ?n = str_nat (?n div 10) @ [digit_char (?n mod 10)]"
    using n by (simp add: str_nat.simps [of ?n])
  also have "str_nat (?n div 10) = str_nat (?n div 10 div 10) @ [digit_char (?n div 10 mod 10)]"
    using n' by (simp add: str_nat.simps [of "?n div 10"])
  finally have "2 \<le> length (str_nat ?n)" by simp
  then show ?thesis using assms by (simp add: fmt02_def str_int_def)
qed

lemma fmt02_minutes: "fmt02 (n mod 3600 div 60) = two_digits (n mod 3600 div 60)"
proof (rule fmt02_two_digits)
  show "0 \<le> n mod 3600 div 60" by simp
  have "n mod 3600 < 3600" by simp
  then show "n mod 3600 div 60 < 100" by simp
qed

lemma fmt02_seconds: "fmt02 (n mod 60) = two_digits (n mod 60)"
proof (rule fmt02_two_digits)
  show "0 \<le> n mod 60" by simp
  have "n mod 60 < 60" by simp
  then show "n mod 60 < 100" by simp
qed

lemma fmt02_hours:
  assumes "0 \<le> n"
  shows "fmt02 (n div 3600) = (if n < 360000 then two_digits (n div 3600) else str_int (n div 3600))"
proof (cases "n < 360000")
  case True
  with assms have "0 \<le> n div 3600" and "n div 3600 < 100" by simp_all
  then have "fmt02 (n div 3600) = two_digits (n div 3600)" by (rule fmt02_two_digits)
  with True show ?thesis by simp
next
  case False
  then have "100 \<le> n div 3600" by simp
  then have "fmt02 (n div 3600) = str_int (n div 3600)" by (rule fmt02_wide)
  with False show ?thesis by simp
qed

lemma fmt02_day_hours: "fmt02 (n mod 86400 div 3600) = two_digits (n mod 86400 div 3600)"
proof (rule fmt02_two_digits)
  show "0 \<le> n mod 86400 div 3600" by simp
  have "n mod 86400 < 86400" by simp
  then show "n mod 86400 div 3600 < 100" by simp
qed

lemma mod_86400_3600: "(n::int) mod 86400 mod 3600 = n mod 3600"
  by (rule mod_mod_cancel) simp


text \<open>
  C9, as stated, fails from one hundred hours on for the two formatters that have no day
  part: the hours are then written with three digits or more, not two.
\<close>

theorem format_hours_counterexample:
  "format_timedelta_search 360000 = ''100:00:00'' \<and> format_total_ytdlp 360000 = ''100:00:00''"
proof -
  have "str_int 100 = ''100''"
    by (simp add: str_int_def str_nat.simps digit_char_def)
  then have wide: "fmt02 100 = ''100''"
    by (simp add: fmt02_wide)
  have zero: "fmt02 0 = ''00''"
    by (simp add: fmt02_def str_int_def str_nat_small digit_char_def)
  show ?thesis
    by (simp add: format_timedelta_search_def format_total_ytdlp_def wide zero)
qed

text \<open>
  C9, amended. For a total of \<open>n \<ge> 0\<close> seconds the formatters of the search script and of
  the subprocess script give \<open>HH:MM:SS\<close> with minutes and seconds always as two digits and
  the hours as two digits below one hundred hours, and as the plain numeral from there
  on. The formatter of the multi-source aggregator gives the same \<open>HH:MM:SS\<close> below one
  day and \<open>D days, HH:MM:SS\<close> from one day on, with the hours of the day as two digits.
  0 seconds are \<open>00:00:00\<close>, 3661 seconds \<open>01:01:01\<close>, and 90000 seconds
  \<open>1 days, 01:00:00\<close> in the aggregator's formatter.
\<close>

theorem format_duration_shape:
  assumes "0 \<le> n"
  shows "format_timedelta_search n =
           (if n < 360000 then two_digits (n div 3600) else str_int (n div 3600))
           @ '':'' @ two_digits (n mod 3600 div 60) @ '':'' @ two_digits (n mod 60)
       \<and> format_total_ytdlp n = format_timedelta_search n
       \<and> (n < 86400 \<longrightarrow> format_timedelta n =
             two_digits (n div 3600) @ '':'' @ two_digits (n mod 3600 div 60) @ '':'' @ two_digits (n mod 60))
       \<and> (86400 \<le> n \<longrightarrow> format_timedelta n =
             str_int (n div 86400) @ '' days, '' @ two_digits (n mod 86400 div 3600)
             @ '':'' @ two_digits (n mod 3600 div 60) @ '':'' @ two_digits (n mod 60))
       \<and> format_timedelta 0 = ''00:00:00'' \<and> format_timedelta_search 0 = ''00:00:00''
       \<and> format_total_ytdlp 0 = ''00:00:00''
       \<and> format_timedelta 3661 = ''01:01:01'' \<and> format_timedelta_search 3661 = ''01:01:01''
       \<and> format_total_ytdlp 3661 = ''01:01:01''
       \<and> format_timedelta 90000 = ''1 days, 01:00:00''"
proof -
  have search: "format_timedelta_search n =
           (if n < 360000 then two_digits (n div 3600) else str_int (n div 3600))
           @ '':'' @ two_digits (n mod 3600 div 60) @ '':'' @ two_digits (n mod 60)"
    using fmt02_hours [OF assms] fmt02_minutes [of n] fmt02_seconds [of n]
    by (simp add: format_timedelta_search_def Let_def mod_mod_cancel)
  have ytdlp: "format_total_ytdlp n = format_timedelta_search n"
    by (simp add: format_total_ytdlp_def format_timedelta_search_def Let_def mod_mod_cancel)
  have small: "format_timedelta n =
             two_digits (n div 3600) @ '':'' @ two_digits (n mod 3600 div 60) @ '':'' @ two_digits (n mod 60)"
    if "n < 86400"
  proof -
    from that assms have d: "n div 86400 = 0" and m: "n mod 86400 = n" by simp_all
    from that have "n < 360000" by simp
    with fmt02_hours [OF assms] have "fmt02 (n div 3600) = two_digits (n div 3600)" by simp
    with d m show ?thesis
      using fmt02_minutes [of n] fmt02_seconds [of n]
      by (simp add: format_timedelta_def Let_def mod_mod_cancel)
  qed
  have large: "format_timedelta n =
             str_int (n div 86400) @ '' days, '' @ two_digits (n mod 86400 div 3600)
             @ '':'' @ two_digits (n mod 3600 div 60) @ '':'' @ two_digits (n mod 60)"
    if "86400 \<le> n"
  proof -
    from that have d: "0 < n div 86400" by simp
    have s: "n mod 3600 mod 60 = n mod 60"
      by (simp add: mod_mod_cancel)
    from d show ?thesis
      using fmt02_day_hours [of n] fmt02_minutes [of n] fmt02_seconds [of n]
      by (simp add: format_timedelta_def Let_def mod_86400_3600 s)
  qed
  have ev: "fmt02 0 = ''00''" "fmt02 1 = ''01''"
    by (simp_all add: fmt02_def str_int_def str_nat_small digit_char_def)
  have z: "format_timedelta 0 = ''00:00:00''" "format_timedelta_search 0 = ''00:00:00''"
      "format_total_ytdlp 0 = ''00:00:00''"
    by (simp_all add: format_timedelta_def format_timedelta_search_def format_total_ytdlp_def ev)
  have a: "format_timedelta 3661 = ''01:01:01''" "format_timedelta_search 3661 = ''01:01:01''"
      "format_total_ytdlp 3661 = ''01:01:01''"
    by (simp_all add: format_timedelta_def format_timedelta_search_def format_total_ytdlp_def ev)
  have b: "format_timedelta 90000 = ''1 days, 01:00:00''"
    by (simp add: format_timedelta_def ev str_int_def str_nat_small digit_char_def)
  from search ytdlp small large z a b show ?thesis by blast
qed

theorem format_duration_shape_witness:
  "format_timedelta_search 360001 = ''100:00:01''
   \<and> format_total_ytdlp 360001 = ''100:00:01''
   \<and> format_timedelta 360001 = ''4 days, 04:00:01''
   \<and> format_timedelta 86399 = ''23:59:59''
   \<and> format_timedelta_search 86399 = ''23:59:59''"
proof -
  have n: "(0::int) \<le> 360001" and m: "(0::int) \<le> 86399" by simp_all
  have s: "str_int 100 = ''100''" "str_int 4 = ''4''"
    by (simp_all add: str_int_def str_nat.simps digit_char_def)
  have t: "two_digits 0 = ''00''" "two_digits 1 = ''01''" "two_digits 4 = ''04''"
      "two_digits 23 = ''23''" "two_digits 59 = ''59''"
    by (simp_all add: two_digits_def digit_char_def)
  from format_duration_shape [OF n] format_duration_shape [OF m] s t
  show ?thesis by simp
qed

section \<open>The subprocess strategy: proofs\<close>

lemma say_fields [simp]:
  "total_seconds (say m st) = total_seconds st"
  "included_videos_count (say m st) = included_videos_count st"
  "included_video_links (say m st) = included_video_links st"
  "printed (say m st) = printed st @ [m]"
  by (simp_all add: say_def)

lemma included_durations_Nil [simp]: "included_durations loads m [] = []"
  by (simp add: included_durations_def map_filter_simps)






lemma fmt02_0: "fmt02 0 = ''00''"
  by (simp add: fmt02_def str_int_def str_nat_small digit_char_def)

text \<open>
  C10. When the enumerator exits successfully with empty standard output, splitting the
  stripped output gives one empty line. With a decoder that rejects the empty document (as
  \<open>json.loads\<close> does), that line gets the one warning for an entry that does not parse, so the
  run reports one video found, none included, and returns \<open>00:00:00\<close>; nothing is written,
  whatever the minimum and the file name asked for.
\<close>

theorem ytdlp_empty_output:
  assumes "loads [] = None"
  shows "get_playlist_duration_ytdlp loads (Completed []) writable minutes save_file =
           Inr \<lparr>returned = Some ''00:00:00'',
                console = [MsgFetching] @ (if minutes * 60 > 0 then [MsgFilterActive minutes] else [])
                          @ [MsgFound 1, WarnCouldNotParse,
                             MsgSummary 1 0 (if minutes * 60 > 0 then Some minutes else None)],
                written = None, total_videos_found = 1, videos_included = 0, seconds_total = 0\<rparr>"
proof -
  have lines: "py_split newline (py_strip []) = [[]]"
    by (simp add: py_strip_def)
  have fmt: "format_total_ytdlp 0 = ''00:00:00''"
    by (simp add: format_total_ytdlp_def fmt02_0)
  have line: "process_line loads m st [] = Inr (say WarnCouldNotParse st)" for m st
    using assms by (simp add: process_line_def)
  show ?thesis
    by (cases save_file)
       (simp_all add: get_playlist_duration_ytdlp_def Let_def lines line fmt say_def)
qed

theorem ytdlp_empty_output_witness:
  "get_playlist_duration_ytdlp (\<lambda>s. if s = ''{}'' then Some (JObj []) else None)
      (Completed []) (\<lambda>name. True) 0 (Some ''links.txt'') =
     Inr \<lparr>returned = Some ''00:00:00'',
          console = [MsgFetching, MsgFound 1, WarnCouldNotParse, MsgSummary 1 0 None],
          written = None, total_videos_found = 1, videos_included = 0, seconds_total = 0\<rparr>"
  using ytdlp_empty_output [of "\<lambda>s. if s = ''{}'' then Some (JObj []) else None"
          "\<lambda>name. True" 0 "Some ''links.txt''"]
  by simp

section \<open>The paginated API strategy: proofs\<close>

subsection \<open>Chunks\<close>

lemma chunks50_Nil [simp]: "chunks50 [] = []"
  by (simp add: chunks50.simps)

lemma chunks50_short: "xs \<noteq> [] \<Longrightarrow> length xs \<le> 50 \<Longrightarrow> chunks50 xs = [xs]"
  by (simp add: chunks50.simps [of xs])

lemma chunks50_full: "length b = 50 \<Longrightarrow> chunks50 (b @ c) = b # chunks50 c"
  by (subst chunks50.simps) auto

lemma chunks50_append:
  "length a mod 50 = 0 \<Longrightarrow> chunks50 (a @ c) = chunks50 a @ chunks50 c"
proof (induction a rule: chunks50.induct)
  case (1 a)
  show ?case
  proof (cases "a = []")
    case True
    then show ?thesis by simp
  next
    case False
    with "1.prems" have len: "50 \<le> length a"
      by (cases "length a < 50") auto
    then have t: "length (take 50 a) = 50" by simp
    from len "1.prems" have "length (drop 50 a) mod 50 = 0"
      by (simp add: mod_diff_eq [symmetric] le_mod_geq)
    with "1.IH" False have IH: "chunks50 (drop 50 a @ c) = chunks50 (drop 50 a) @ chunks50 c"
      by simp
    have "a @ c = take 50 a @ (drop 50 a @ c)"
      by (simp only: append_assoc [symmetric] append_take_drop_id)
    then have "chunks50 (a @ c) = chunks50 (take 50 a @ (drop 50 a @ c))" by (rule arg_cong)
    also have "\<dots> = take 50 a # chunks50 (drop 50 a @ c)" using t by (rule chunks50_full)
    also have "\<dots> = (take 50 a # chunks50 (drop 50 a)) @ chunks50 c" using IH by simp
    also have "take 50 a # chunks50 (drop 50 a) = chunks50 a"
      using False by (simp add: chunks50.simps [of a])
    finally show ?thesis .
  qed
qed



subsection \<open>The loops of \<open>get_videos_duration\<close>\<close>

lemma included_item_durations_Nil [simp]: "included_item_durations pd m [] = []"
  by (simp add: included_item_durations_def map_filter_simps)







lemma duration_chunks_append:
  "duration_chunks yt pd m sl acc (xs @ ys) =
     (case duration_chunks yt pd m sl acc xs of
        Inl e \<Rightarrow> Inl e
      | Inr acc' \<Rightarrow> duration_chunks yt pd m sl acc' ys)"
  by (induction xs arbitrary: acc) (auto split: sum.splits)




subsection \<open>The minimum-duration filter\<close>

lemma process_line_at_minimum:
  assumes "loads line = Some (JObj video_meta)" and "dict_get video_meta ''duration'' = JNum M"
  shows "\<exists>st'. process_line loads M st line = Inr st'
             \<and> included_videos_count st' = included_videos_count st + 1
             \<and> total_seconds st' = total_seconds st + M"
  using assms by (simp add: process_line_def Let_def)

lemma process_line_below_minimum:
  assumes "loads line = Some (JObj video_meta)" and "dict_get video_meta ''duration'' = JNum (M - 1)"
  shows "process_line loads M st line = Inr st"
  using assms by (simp add: process_line_def Let_def)

lemma duration_item_at_minimum:
  assumes "contentDetails item = Some (Some duration_iso)" and "item_id item = Some i"
    and "pd duration_iso = Some M"
  shows "\<exists>acc'. duration_item pd M save_links acc item = Inr acc'
             \<and> included_count acc' = included_count acc + 1
             \<and> total_duration acc' = total_duration acc + M"
  using assms by (simp add: duration_item_def Let_def)

lemma duration_item_below_minimum:
  assumes "contentDetails item = Some (Some duration_iso)" and "pd duration_iso = Some (M - 1)"
  shows "duration_item pd M save_links acc item = Inr acc"
  using assms by (simp add: duration_item_def Let_def)

lemma get_videos_duration_single:
  assumes "videos_list yt v = Inr [item]" and "contentDetails item = Some (Some duration_iso)"
    and "pd duration_iso = Some d"
  shows "get_videos_duration yt pd [v] minutes False =
           Inr (if 60 * minutes \<le> d
                then \<lparr>total_duration = d, included_links = [], included_count = 1\<rparr>
                else \<lparr>total_duration = 0, included_links = [], included_count = 0\<rparr>)"
proof -
  have "chunks50 [v] = [[v]]" by (rule chunks50_short) simp_all
  with assms show ?thesis
    by (simp add: get_videos_duration_def duration_item_def Let_def)
qed

lemma ytdlp_single_line:
  assumes "py_split newline (py_strip stdout) = [line]" and "loads line = Some (JObj video_meta)"
    and "dict_get video_meta ''duration'' = JNum d"
  shows "\<exists>r. get_playlist_duration_ytdlp loads (Completed stdout) writable minutes None = Inr r
           \<and> total_videos_found r = 1
           \<and> videos_included r = (if minutes * 60 \<le> d then 1 else 0)
           \<and> seconds_total r = (if minutes * 60 \<le> d then d else 0)"
  using assms
  by (simp add: get_playlist_duration_ytdlp_def process_line_def Let_def)

text \<open>
  C3. The filter is inclusive. In the loop of either script, for every minimum \<open>M\<close> in
  seconds, a record whose duration is exactly \<open>M\<close> is included (the count grows by one and
  the total by \<open>M\<close>) and a record of \<open>M - 1\<close> seconds leaves count and total as they were.
  The same holds for a whole run on one record, where the minimum is the given number of
  minutes times 60.
\<close>

theorem min_duration_inclusive:
  "(loads line = Some (JObj video_meta) \<longrightarrow>
      (dict_get video_meta ''duration'' = JNum M \<longrightarrow>
         (\<exists>st'. process_line loads M st line = Inr st'
               \<and> included_videos_count st' = included_videos_count st + 1
               \<and> total_seconds st' = total_seconds st + M))
    \<and> (dict_get video_meta ''duration'' = JNum (M - 1) \<longrightarrow> process_line loads M st line = Inr st))
 \<and> (contentDetails item = Some (Some duration_iso) \<and> item_id item = Some i \<longrightarrow>
      (pd duration_iso = Some M \<longrightarrow>
         (\<exists>acc'. duration_item pd M save_links acc item = Inr acc'
               \<and> included_count acc' = included_count acc + 1
               \<and> total_duration acc' = total_duration acc + M))
    \<and> (pd duration_iso = Some (M - 1) \<longrightarrow> duration_item pd M save_links acc item = Inr acc))
 \<and> (videos_list yt v = Inr [item] \<and> contentDetails item = Some (Some duration_iso) \<longrightarrow>
      (pd duration_iso = Some (60 * minutes) \<longrightarrow>
         get_videos_duration yt pd [v] minutes False =
           Inr \<lparr>total_duration = 60 * minutes, included_links = [], included_count = 1\<rparr>)
    \<and> (pd duration_iso = Some (60 * minutes - 1) \<longrightarrow>
         get_videos_duration yt pd [v] minutes False =
           Inr \<lparr>total_duration = 0, included_links = [], included_count = 0\<rparr>))
 \<and> (py_split newline (py_strip stdout) = [line] \<and> loads line = Some (JObj video_meta) \<longrightarrow>
      (dict_get video_meta ''duration'' = JNum (minutes * 60) \<longrightarrow>
         (\<exists>r. get_playlist_duration_ytdlp loads (Completed stdout) writable minutes None = Inr r
             \<and> total_videos_found r = 1 \<and> videos_included r = 1 \<and> seconds_total r = minutes * 60))
    \<and> (dict_get video_meta ''duration'' = JNum (minutes * 60 - 1) \<longrightarrow>
         (\<exists>r. get_playlist_duration_ytdlp loads (Completed stdout) writable minutes None = Inr r
             \<and> total_videos_found r = 1 \<and> videos_included r = 0 \<and> seconds_total r = 0)))"
proof (intro conjI impI)
  assume "loads line = Some (JObj video_meta)" and "dict_get video_meta ''duration'' = JNum M"
  then show "\<exists>st'. process_line loads M st line = Inr st'
               \<and> included_videos_count st' = included_videos_count st + 1
               \<and> total_seconds st' = total_seconds st + M"
    by (rule process_line_at_minimum)
next
  assume "loads line = Some (JObj video_meta)" and "dict_get video_meta ''duration'' = JNum (M - 1)"
  then show "process_line loads M st line = Inr st"
    by (rule process_line_below_minimum)
next
  assume "contentDetails item = Some (Some duration_iso) \<and> item_id item = Some i"
    and "pd duration_iso = Some M"
  then show "\<exists>acc'. duration_item pd M save_links acc item = Inr acc'
               \<and> included_count acc' = included_count acc + 1
               \<and> total_duration acc' = total_duration acc + M"
    by (intro duration_item_at_minimum) simp_all
next
  assume "contentDetails item = Some (Some duration_iso) \<and> item_id item = Some i"
    and "pd duration_iso = Some (M - 1)"
  then show "duration_item pd M save_links acc item = Inr acc"
    by (intro duration_item_below_minimum) simp_all
next
  assume a: "videos_list yt v = Inr [item] \<and> contentDetails item = Some (Some duration_iso)"
    and b: "pd duration_iso = Some (60 * minutes)"
  from a have "videos_list yt v = Inr [item]" and "contentDetails item = Some (Some duration_iso)"
    by simp_all
  from get_videos_duration_single [of yt v item duration_iso pd _ minutes] this b
  show "get_videos_duration yt pd [v] minutes False =
           Inr \<lparr>total_duration = 60 * minutes, included_links = [], included_count = 1\<rparr>"
    by simp
next
  assume a: "videos_list yt v = Inr [item] \<and> contentDetails item = Some (Some duration_iso)"
    and b: "pd duration_iso = Some (60 * minutes - 1)"
  from a have "videos_list yt v = Inr [item]" and "contentDetails item = Some (Some duration_iso)"
    by simp_all
  from get_videos_duration_single [of yt v item duration_iso pd _ minutes] this b
  show "get_videos_duration yt pd [v] minutes False =
           Inr \<lparr>total_duration = 0, included_links = [], included_count = 0\<rparr>"
    by simp
next
  assume a: "py_split newline (py_strip stdout) = [line] \<and> loads line = Some (JObj video_meta)"
    and b: "dict_get video_meta ''duration'' = JNum (minutes * 60)"
  from a have "py_split newline (py_strip stdout) = [line]" and "loads line = Some (JObj video_meta)"
    by simp_all
  from ytdlp_single_line [of stdout line loads video_meta _ writable minutes] this b
  show "\<exists>r. get_playlist_duration_ytdlp loads (Completed stdout) writable minutes None = Inr r
             \<and> total_videos_found r = 1 \<and> videos_included r = 1 \<and> seconds_total r = minutes * 60"
    by simp
next
  assume a: "py_split newline (py_strip stdout) = [line] \<and> loads line = Some (JObj video_meta)"
    and b: "dict_get video_meta ''duration'' = JNum (minutes * 60 - 1)"
  from a have "py_split newline (py_strip stdout) = [line]" and "loads line = Some (JObj video_meta)"
    by simp_all
  from ytdlp_single_line [of stdout line loads video_meta _ writable minutes] this b
  show "\<exists>r. get_playlist_duration_ytdlp loads (Completed stdout) writable minutes None = Inr r
             \<and> total_videos_found r = 1 \<and> videos_included r = 0 \<and> seconds_total r = 0"
    by simp
qed

theorem min_duration_inclusive_witness:
  "(\<exists>st'. process_line (\<lambda>s. if s = ''a'' then Some (JObj [(''duration'', JNum 300)]) else if s = ''b'' then Some (JObj [(''duration'', JNum 299)]) else None) 300
            \<lparr>total_seconds = 0, included_videos_count = 0, included_video_links = [], printed = []\<rparr> ''a'' = Inr st'
        \<and> included_videos_count st' = 1 \<and> total_seconds st' = 300)
   \<and> process_line (\<lambda>s. if s = ''a'' then Some (JObj [(''duration'', JNum 300)]) else if s = ''b'' then Some (JObj [(''duration'', JNum 299)]) else None) 300
        \<lparr>total_seconds = 0, included_videos_count = 0, included_video_links = [], printed = []\<rparr> ''b''
       = Inr \<lparr>total_seconds = 0, included_videos_count = 0, included_video_links = [], printed = []\<rparr>
   \<and> (\<exists>acc'. duration_item (\<lambda>s. if s = ''PT5M'' then Some 300 else if s = ''PT4M59S'' then Some 299 else None) 300 True
            \<lparr>total_duration = 0, included_links = [], included_count = 0\<rparr> \<lparr>item_id = Some ''v1'', contentDetails = Some (Some ''PT5M'')\<rparr> = Inr acc'
        \<and> included_count acc' = 1 \<and> total_duration acc' = 300)
   \<and> duration_item (\<lambda>s. if s = ''PT5M'' then Some 300 else if s = ''PT4M59S'' then Some 299 else None) 300 True
        \<lparr>total_duration = 0, included_links = [], included_count = 0\<rparr> \<lparr>item_id = Some ''v2'', contentDetails = Some (Some ''PT4M59S'')\<rparr>
       = Inr \<lparr>total_duration = 0, included_links = [], included_count = 0\<rparr>
   \<and> get_videos_duration
        \<lparr>playlistItems_list = (\<lambda>p t. Inl HttpError),
          videos_list = (\<lambda>s. if s = ''v1'' then Inr [\<lparr>item_id = Some ''v1'', contentDetails = Some (Some ''PT5M'')\<rparr>]
                             else if s = ''v2'' then Inr [\<lparr>item_id = Some ''v2'', contentDetails = Some (Some ''PT4M59S'')\<rparr>] else Inr []),
          channels_list = (\<lambda>a b. Inl HttpError), search_channel = (\<lambda>s. Inl HttpError)\<rparr>
        (\<lambda>s. if s = ''PT5M'' then Some 300 else if s = ''PT4M59S'' then Some 299 else None) [''v1''] 5 False
       = Inr \<lparr>total_duration = 300, included_links = [], included_count = 1\<rparr>
   \<and> get_videos_duration
        \<lparr>playlistItems_list = (\<lambda>p t. Inl HttpError),
          videos_list = (\<lambda>s. if s = ''v1'' then Inr [\<lparr>item_id = Some ''v1'', contentDetails = Some (Some ''PT5M'')\<rparr>]
                             else if s = ''v2'' then Inr [\<lparr>item_id = Some ''v2'', contentDetails = Some (Some ''PT4M59S'')\<rparr>] else Inr []),
          channels_list = (\<lambda>a b. Inl HttpError), search_channel = (\<lambda>s. Inl HttpError)\<rparr>
        (\<lambda>s. if s = ''PT5M'' then Some 300 else if s = ''PT4M59S'' then Some 299 else None) [''v2''] 5 False
       = Inr \<lparr>total_duration = 0, included_links = [], included_count = 0\<rparr>
   \<and> (\<exists>r. get_playlist_duration_ytdlp (\<lambda>s. if s = ''a'' then Some (JObj [(''duration'', JNum 300)]) else if s = ''b'' then Some (JObj [(''duration'', JNum 299)]) else None)
            (Completed ''a'') (\<lambda>name. True) 5 None = Inr r
        \<and> total_videos_found r = 1 \<and> videos_included r = 1 \<and> seconds_total r = 300)
   \<and> (\<exists>r. get_playlist_duration_ytdlp (\<lambda>s. if s = ''a'' then Some (JObj [(''duration'', JNum 300)]) else if s = ''b'' then Some (JObj [(''duration'', JNum 299)]) else None)
            (Completed ''b'') (\<lambda>name. True) 5 None = Inr r
        \<and> total_videos_found r = 1 \<and> videos_included r = 0 \<and> seconds_total r = 0)"
proof -
  have strip: "py_split newline (py_strip ''a'') = [''a'']" "py_split newline (py_strip ''b'') = [''b'']"
    by (simp_all add: py_strip_def py_isspace_def newline_def)
  have get: "dict_get [(''duration'', JNum 300)] ''duration'' = JNum 300"
      "dict_get [(''duration'', JNum 299)] ''duration'' = JNum 299"
    by (simp_all add: dict_get_def dict_get_default_def)
  note at = min_duration_inclusive [where loads = "(\<lambda>s. if s = ''a'' then Some (JObj [(''duration'', JNum 300)]) else if s = ''b'' then Some (JObj [(''duration'', JNum 299)]) else None)"
      and line = "''a''" and video_meta = "[(''duration'', JNum 300)]" and M = 300
      and st = "\<lparr>total_seconds = 0, included_videos_count = 0, included_video_links = [], printed = []\<rparr>"
      and item = "\<lparr>item_id = Some ''v1'', contentDetails = Some (Some ''PT5M'')\<rparr>" and duration_iso = "''PT5M''" and i = "''v1''"
      and pd = "(\<lambda>s. if s = ''PT5M'' then Some 300 else if s = ''PT4M59S'' then Some 299 else None)" and save_links = True
      and acc = "\<lparr>total_duration = 0, included_links = [], included_count = 0\<rparr>"
      and yt = "\<lparr>playlistItems_list = (\<lambda>p t. Inl HttpError),
          videos_list = (\<lambda>s. if s = ''v1'' then Inr [\<lparr>item_id = Some ''v1'', contentDetails = Some (Some ''PT5M'')\<rparr>]
                             else if s = ''v2'' then Inr [\<lparr>item_id = Some ''v2'', contentDetails = Some (Some ''PT4M59S'')\<rparr>] else Inr []),
          channels_list = (\<lambda>a b. Inl HttpError), search_channel = (\<lambda>s. Inl HttpError)\<rparr>"
      and v = "''v1''" and minutes = 5 and stdout = "''a''" and writable = "(\<lambda>name. True)"]
  note below = min_duration_inclusive [where loads = "(\<lambda>s. if s = ''a'' then Some (JObj [(''duration'', JNum 300)]) else if s = ''b'' then Some (JObj [(''duration'', JNum 299)]) else None)"
      and line = "''b''" and video_meta = "[(''duration'', JNum 299)]" and M = 300
      and st = "\<lparr>total_seconds = 0, included_videos_count = 0, included_video_links = [], printed = []\<rparr>"
      and item = "\<lparr>item_id = Some ''v2'', contentDetails = Some (Some ''PT4M59S'')\<rparr>" and duration_iso = "''PT4M59S''" and i = "''v2''"
      and pd = "(\<lambda>s. if s = ''PT5M'' then Some 300 else if s = ''PT4M59S'' then Some 299 else None)" and save_links = True
      and acc = "\<lparr>total_duration = 0, included_links = [], included_count = 0\<rparr>"
      and yt = "\<lparr>playlistItems_list = (\<lambda>p t. Inl HttpError),
          videos_list = (\<lambda>s. if s = ''v1'' then Inr [\<lparr>item_id = Some ''v1'', contentDetails = Some (Some ''PT5M'')\<rparr>]
                             else if s = ''v2'' then Inr [\<lparr>item_id = Some ''v2'', contentDetails = Some (Some ''PT4M59S'')\<rparr>] else Inr []),
          channels_list = (\<lambda>a b. Inl HttpError), search_channel = (\<lambda>s. Inl HttpError)\<rparr>"
      and v = "''v2''" and minutes = 5 and stdout = "''b''" and writable = "(\<lambda>name. True)"]
  from at below strip get show ?thesis by simp
qed

subsection \<open>Records without a duration\<close>





subsection \<open>Records that do not parse\<close>




subsection \<open>Counts and totals\<close>





lemma fetched_items_Nil [simp]: "fetched_items yt [] = []"
  by (simp add: fetched_items_def)





subsection \<open>Failed remote calls\<close>

lemma duration_chunks_failed_batch:
  assumes "videos_list yt (join_comma chunk) = Inl HttpError"
  shows "duration_chunks yt pd m sl acc (before @ chunk # after) = duration_chunks yt pd m sl acc (before @ after)"
  using assms by (simp add: duration_chunks_append split: sum.splits)

lemma chunks50_middle:
  assumes "length a mod 50 = 0" and "b \<noteq> []" and "length b \<le> 50" and "length b = 50 \<or> c = []"
  shows "chunks50 (a @ b @ c) = chunks50 a @ b # chunks50 c"
proof -
  have "chunks50 (b @ c) = b # chunks50 c"
  proof (cases "length b = 50")
    case True
    then show ?thesis by (rule chunks50_full)
  next
    case False
    with assms(4) have "c = []" by simp
    with assms(2,3) show ?thesis by (simp add: chunks50_short)
  qed
  with chunks50_append [OF assms(1), of "b @ c"] show ?thesis by simp
qed

lemma failed_page:
  assumes "playlistItems_list yt playlist_id next_page_token = Inl HttpError"
  shows "get_playlist_video_ids_loop yt playlist_id video_ids next_page_token = Some (Inr [])"
  using assms by (simp add: get_playlist_video_ids_loop.simps)

text \<open>
  C1, as stated, fails for the pages of playlist membership: when the call for the second
  page fails, the identifiers of the first page are not counted and their durations are
  not fetched. The function returns the empty list, and the aggregator reports no video
  found for the source.
\<close>

theorem failed_page_counterexample:
  "get_playlist_video_ids
        \<lparr>playlistItems_list = (\<lambda>p t. if t = None
              then Inr \<lparr>page_items = [Some ''v0'', Some ''v2''], nextPageToken = Some ''t2''\<rparr>
              else Inl HttpError),
          videos_list = (\<lambda>s. if s = ''v0'' then Inr [\<lparr>item_id = Some ''v0'', contentDetails = Some (Some ''PT10M'')\<rparr>]
                             else if s = ''v2'' then Inr [\<lparr>item_id = Some ''v2'', contentDetails = Some (Some ''PT2M'')\<rparr>]
                             else Inl HttpError),
          channels_list = (\<lambda>a b. Inl HttpError), search_channel = (\<lambda>s. Inl HttpError)\<rparr> ''PL1'' = Some (Inr [])
   \<and> aggregate
        \<lparr>playlistItems_list = (\<lambda>p t. if t = None
              then Inr \<lparr>page_items = [Some ''v0'', Some ''v2''], nextPageToken = Some ''t2''\<rparr>
              else Inl HttpError),
          videos_list = (\<lambda>s. if s = ''v0'' then Inr [\<lparr>item_id = Some ''v0'', contentDetails = Some (Some ''PT10M'')\<rparr>]
                             else if s = ''v2'' then Inr [\<lparr>item_id = Some ''v2'', contentDetails = Some (Some ''PT2M'')\<rparr>]
                             else Inl HttpError),
          channels_list = (\<lambda>a b. Inl HttpError), search_channel = (\<lambda>s. Inl HttpError)\<rparr>
        (\<lambda>s. if s = ''PT2M'' then Some 120 else if s = ''PT10M'' then Some 600 else None) 0 False [''list=PL1'']
     = Some (Inr \<lparr>grand_total_duration = 0, total_videos_found_all = 0, total_videos_included = 0, all_included_links = []\<rparr>)"
proof -
  have "parse_url ''list=PL1'' = (Some Playlist, Some ''PL1'')"
    by (simp add: parse_url_def playlist_at_def literal_def id_char_def)
  then show ?thesis
    by (simp add: get_playlist_video_ids_def get_playlist_video_ids_loop.simps no_token_def
          aggregate_def process_source_def source_video_ids_def)
qed

text \<open>
  C1, amended. A failed call for one batch of duration metadata contributes nothing, and
  processing continues with the following batches of the source: the result is the one
  for the identifiers without that batch. A failed call for a page of playlist membership
  ends the paging and makes the identifier list of the source empty, whatever earlier
  pages have brought; the source then contributes nothing and the aggregator goes on
  to the next source.
\<close>

theorem remote_failure_handling:
  "(playlistItems_list yt playlist_id next_page_token = Inl HttpError \<longrightarrow>
      get_playlist_video_ids_loop yt playlist_id video_ids next_page_token = Some (Inr []))
 \<and> (parse_url source = (Some Playlist, Some playlist_id)
      \<and> get_playlist_video_ids yt playlist_id = Some (Inr []) \<longrightarrow>
      process_source yt pd minutes save_links rep source = Some (Inr rep))
 \<and> (videos_list yt (join_comma chunk) = Inl HttpError \<longrightarrow>
      duration_chunks yt pd M save_links acc (before @ chunk # after) =
        duration_chunks yt pd M save_links acc (before @ after))
 \<and> (length a mod 50 = 0 \<and> b \<noteq> [] \<and> length b \<le> 50 \<and> (length b = 50 \<or> c = [])
      \<and> videos_list yt (join_comma b) = Inl HttpError \<longrightarrow>
      get_videos_duration yt pd (a @ b @ c) minutes save_links =
        get_videos_duration yt pd (a @ c) minutes save_links)"
proof (intro conjI impI)
  assume "playlistItems_list yt playlist_id next_page_token = Inl HttpError"
  then show "get_playlist_video_ids_loop yt playlist_id video_ids next_page_token = Some (Inr [])"
    by (rule failed_page)
next
  assume "parse_url source = (Some Playlist, Some playlist_id)
      \<and> get_playlist_video_ids yt playlist_id = Some (Inr [])"
  then show "process_source yt pd minutes save_links rep source = Some (Inr rep)"
    by (simp add: process_source_def source_video_ids_def)
next
  assume "videos_list yt (join_comma chunk) = Inl HttpError"
  then show "duration_chunks yt pd M save_links acc (before @ chunk # after) =
        duration_chunks yt pd M save_links acc (before @ after)"
    by (rule duration_chunks_failed_batch)
next
  assume a: "length a mod 50 = 0 \<and> b \<noteq> [] \<and> length b \<le> 50 \<and> (length b = 50 \<or> c = [])
      \<and> videos_list yt (join_comma b) = Inl HttpError"
  then have "chunks50 (a @ b @ c) = chunks50 a @ b # chunks50 c"
    by (intro chunks50_middle) simp_all
  moreover from a have "chunks50 (a @ c) = chunks50 a @ chunks50 c"
    by (intro chunks50_append) simp
  ultimately show "get_videos_duration yt pd (a @ b @ c) minutes save_links =
        get_videos_duration yt pd (a @ c) minutes save_links"
    using a by (simp add: get_videos_duration_def duration_chunks_failed_batch)
qed

theorem remote_failure_handling_witness:
  "get_playlist_video_ids_loop
        \<lparr>playlistItems_list = (\<lambda>p t. if t = None
              then Inr \<lparr>page_items = [Some ''v0'', Some ''v2''], nextPageToken = Some ''t2''\<rparr>
              else Inl HttpError),
          videos_list = (\<lambda>s. if s = ''v0'' then Inr [\<lparr>item_id = Some ''v0'', contentDetails = Some (Some ''PT10M'')\<rparr>]
                             else if s = ''v2'' then Inr [\<lparr>item_id = Some ''v2'', contentDetails = Some (Some ''PT2M'')\<rparr>]
                             else Inl HttpError),
          channels_list = (\<lambda>a b. Inl HttpError), search_channel = (\<lambda>s. Inl HttpError)\<rparr> ''PL1'' [''v0'', ''v2''] (Some ''t2'') = Some (Inr [])
   \<and> process_source
        \<lparr>playlistItems_list = (\<lambda>p t. if t = None
              then Inr \<lparr>page_items = [Some ''v0'', Some ''v2''], nextPageToken = Some ''t2''\<rparr>
              else Inl HttpError),
          videos_list = (\<lambda>s. if s = ''v0'' then Inr [\<lparr>item_id = Some ''v0'', contentDetails = Some (Some ''PT10M'')\<rparr>]
                             else if s = ''v2'' then Inr [\<lparr>item_id = Some ''v2'', contentDetails = Some (Some ''PT2M'')\<rparr>]
                             else Inl HttpError),
          channels_list = (\<lambda>a b. Inl HttpError), search_channel = (\<lambda>s. Inl HttpError)\<rparr>
        (\<lambda>s. if s = ''PT2M'' then Some 120 else if s = ''PT10M'' then Some 600 else None) 0 False
        \<lparr>grand_total_duration = 0, total_videos_found_all = 0, total_videos_included = 0, all_included_links = []\<rparr> ''list=PL1''
     = Some (Inr \<lparr>grand_total_duration = 0, total_videos_found_all = 0, total_videos_included = 0, all_included_links = []\<rparr>)
   \<and> duration_chunks
        \<lparr>playlistItems_list = (\<lambda>p t. if t = None
              then Inr \<lparr>page_items = [Some ''v0'', Some ''v2''], nextPageToken = Some ''t2''\<rparr>
              else Inl HttpError),
          videos_list = (\<lambda>s. if s = ''v0'' then Inr [\<lparr>item_id = Some ''v0'', contentDetails = Some (Some ''PT10M'')\<rparr>]
                             else if s = ''v2'' then Inr [\<lparr>item_id = Some ''v2'', contentDetails = Some (Some ''PT2M'')\<rparr>]
                             else Inl HttpError),
          channels_list = (\<lambda>a b. Inl HttpError), search_channel = (\<lambda>s. Inl HttpError)\<rparr>
        (\<lambda>s. if s = ''PT2M'' then Some 120 else if s = ''PT10M'' then Some 600 else None) 0 False
        \<lparr>total_duration = 0, included_links = [], included_count = 0\<rparr> [[''v0''], [''v1''], [''v2'']]
     = Inr \<lparr>total_duration = 720, included_links = [], included_count = 2\<rparr>
   \<and> get_videos_duration
        \<lparr>playlistItems_list = (\<lambda>p t. if t = None
              then Inr \<lparr>page_items = [Some ''v0'', Some ''v2''], nextPageToken = Some ''t2''\<rparr>
              else Inl HttpError),
          videos_list = (\<lambda>s. if s = ''v0'' then Inr [\<lparr>item_id = Some ''v0'', contentDetails = Some (Some ''PT10M'')\<rparr>]
                             else if s = ''v2'' then Inr [\<lparr>item_id = Some ''v2'', contentDetails = Some (Some ''PT2M'')\<rparr>]
                             else Inl HttpError),
          channels_list = (\<lambda>a b. Inl HttpError), search_channel = (\<lambda>s. Inl HttpError)\<rparr>
        (\<lambda>s. if s = ''PT2M'' then Some 120 else if s = ''PT10M'' then Some 600 else None) [''v1''] 0 False
     = Inr \<lparr>total_duration = 0, included_links = [], included_count = 0\<rparr>"
proof -
  let ?yt = "\<lparr>playlistItems_list = (\<lambda>p t. if t = None
              then Inr \<lparr>page_items = [Some ''v0'', Some ''v2''], nextPageToken = Some ''t2''\<rparr>
              else Inl HttpError),
          videos_list = (\<lambda>s. if s = ''v0'' then Inr [\<lparr>item_id = Some ''v0'', contentDetails = Some (Some ''PT10M'')\<rparr>]
                             else if s = ''v2'' then Inr [\<lparr>item_id = Some ''v2'', contentDetails = Some (Some ''PT2M'')\<rparr>]
                             else Inl HttpError),
          channels_list = (\<lambda>a b. Inl HttpError), search_channel = (\<lambda>s. Inl HttpError)\<rparr>"
  let ?pd = "(\<lambda>s. if s = ''PT2M'' then Some 120 else if s = ''PT10M'' then Some 600 else None)"
  let ?rep = "\<lparr>grand_total_duration = 0, total_videos_found_all = 0, total_videos_included = 0, all_included_links = []\<rparr>"
  let ?acc = "\<lparr>total_duration = 0, included_links = [], included_count = 0\<rparr>"
  note inst = remote_failure_handling [where yt = ?yt and playlist_id = "''PL1''"
      and next_page_token = "Some ''t2''" and video_ids = "[''v0'', ''v2'']"
      and source = "''list=PL1''" and pd = ?pd and minutes = 0 and save_links = False and rep = ?rep
      and chunk = "[''v1'']" and M = 0 and acc = ?acc and before = "[[''v0'']]" and after = "[[''v2'']]"
      and a = "[]" and b = "[''v1'']" and c = "[]"]
  have page: "playlistItems_list ?yt ''PL1'' (Some ''t2'') = Inl HttpError" by simp
  have parse: "parse_url ''list=PL1'' = (Some Playlist, Some ''PL1'')"
    by (simp add: parse_url_def playlist_at_def literal_def id_char_def)
  have ids: "get_playlist_video_ids ?yt ''PL1'' = Some (Inr [])"
    by (simp add: get_playlist_video_ids_def get_playlist_video_ids_loop.simps no_token_def)
  have batch: "videos_list ?yt (join_comma [''v1'']) = Inl HttpError" by simp
  have split: "length ([] :: string list) mod 50 = 0 \<and> [''v1''] \<noteq> [] \<and> length [''v1''] \<le> 50
      \<and> (length [''v1''] = 50 \<or> ([] :: string list) = [])" by simp
  from inst page have c1: "get_playlist_video_ids_loop ?yt ''PL1'' [''v0'', ''v2''] (Some ''t2'') = Some (Inr [])"
    by blast
  from inst parse ids have c2: "process_source ?yt ?pd 0 False ?rep ''list=PL1'' = Some (Inr ?rep)"
    by blast
  from inst batch have c3: "duration_chunks ?yt ?pd 0 False ?acc ([[''v0'']] @ [''v1''] # [[''v2'']]) =
        duration_chunks ?yt ?pd 0 False ?acc ([[''v0'']] @ [[''v2'']])"
    by blast
  from inst batch split have c4: "get_videos_duration ?yt ?pd ([] @ [''v1''] @ []) 0 False =
        get_videos_duration ?yt ?pd ([] @ []) 0 False"
    by blast
  have rhs3: "duration_chunks ?yt ?pd 0 False ?acc ([[''v0'']] @ [[''v2'']]) =
        Inr \<lparr>total_duration = 720, included_links = [], included_count = 2\<rparr>"
    by (simp add: duration_item_def)
  have rhs4: "get_videos_duration ?yt ?pd ([] @ []) 0 False = Inr ?acc"
    by (simp add: get_videos_duration_def)
  from c3 rhs3 have c3': "duration_chunks ?yt ?pd 0 False ?acc [[''v0''], [''v1''], [''v2'']] =
        Inr \<lparr>total_duration = 720, included_links = [], included_count = 2\<rparr>"
    by (simp only: append.simps)
  from c4 rhs4 have c4': "get_videos_duration ?yt ?pd [''v1''] 0 False = Inr ?acc"
    by (simp only: append.simps)
  from c1 c2 c3' c4' show ?thesis by blast
qed

section \<open>\<open>parse_url\<close>: proofs\<close>

lemma re_search_None_iff:
  "re_search at s = None \<longleftrightarrow> (\<forall>pre suf. s = pre @ suf \<longrightarrow> at suf = None)"
proof (induction s)
  case Nil
  show ?case by simp
next
  case (Cons c cs)
  show ?case
  proof (cases "at (c # cs)")
    case None
    have "(\<forall>pre suf. c # cs = pre @ suf \<longrightarrow> at suf = None)
          \<longleftrightarrow> (\<forall>pre suf. cs = pre @ suf \<longrightarrow> at suf = None)"
    proof
      assume a: "\<forall>pre suf. c # cs = pre @ suf \<longrightarrow> at suf = None"
      show "\<forall>pre suf. cs = pre @ suf \<longrightarrow> at suf = None"
      proof (intro allI impI)
        fix pre suf
        assume "cs = pre @ suf"
        then have "c # cs = (c # pre) @ suf" by simp
        with a show "at suf = None" by blast
      qed
    next
      assume a: "\<forall>pre suf. cs = pre @ suf \<longrightarrow> at suf = None"
      show "\<forall>pre suf. c # cs = pre @ suf \<longrightarrow> at suf = None"
      proof (intro allI impI)
        fix pre suf
        assume e: "c # cs = pre @ suf"
        show "at suf = None"
        proof (cases pre)
          case Nil
          with e None show ?thesis by simp
        next
          case (Cons p ps)
          with e have "cs = ps @ suf" by simp
          with a show ?thesis by blast
        qed
      qed
    qed
    with None Cons.IH show ?thesis by simp
  next
    case (Some g)
    have "c # cs = [] @ (c # cs)" by simp
    with Some have "\<not> (\<forall>pre suf. c # cs = pre @ suf \<longrightarrow> at suf = None)"
      by (metis option.distinct(1))
    with Some show ?thesis by simp
  qed
qed

text \<open>A match that \<open>re_search\<close> returns is a match at some position, with none before it.\<close>

lemma re_search_Some:
  assumes "re_search at s = Some g"
  shows "\<exists>pre suf. s = pre @ suf \<and> at suf = Some g
           \<and> (\<forall>pre' suf'. s = pre' @ suf' \<and> length pre' < length pre \<longrightarrow> at suf' = None)"
  using assms
proof (induction s)
  case Nil
  then have "[] = [] @ ([] :: string) \<and> at [] = Some g" by simp
  then show ?case by fastforce
next
  case (Cons c cs)
  show ?case
  proof (cases "at (c # cs)")
    case (Some g')
    with Cons.prems have "c # cs = [] @ (c # cs) \<and> at (c # cs) = Some g" by simp
    then show ?thesis by (metis length_0_conv less_nat_zero_code list.size(3))
  next
    case None
    with Cons.prems have "re_search at cs = Some g" by simp
    from Cons.IH [OF this] obtain pre suf where
      cs: "cs = pre @ suf" and m: "at suf = Some g" and
      first: "\<forall>pre' suf'. cs = pre' @ suf' \<and> length pre' < length pre \<longrightarrow> at suf' = None"
      by blast
    have "\<forall>pre' suf'. c # cs = pre' @ suf' \<and> length pre' < length (c # pre) \<longrightarrow> at suf' = None"
    proof (intro allI impI)
      fix pre' suf'
      assume a: "c # cs = pre' @ suf' \<and> length pre' < length (c # pre)"
      show "at suf' = None"
      proof (cases pre')
        case Nil
        with a None show ?thesis by simp
      next
        case (Cons p ps)
        with a have "cs = ps @ suf' \<and> length ps < length pre" by simp
        with first show ?thesis by blast
      qed
    qed
    moreover from cs have "c # cs = (c # pre) @ suf" by simp
    ultimately show ?thesis using m by blast
  qed
qed

lemma literal_Some_iff: "literal lit s = Some r \<longleftrightarrow> s = lit @ r"
proof
  assume "literal lit s = Some r"
  then have "take (length lit) s = lit" and "r = drop (length lit) s"
    by (auto simp: literal_def split: if_splits)
  then show "s = lit @ r" by (metis append_take_drop_id)
next
  assume "s = lit @ r"
  then show "literal lit s = Some r" by (simp add: literal_def)
qed

lemma literal_None_iff: "literal lit s = None \<longleftrightarrow> (\<forall>r. s \<noteq> lit @ r)"
  by (metis literal_Some_iff not_Some_eq)

text \<open>The longest run of a class at the start of a string.\<close>

lemma takeWhile_run:
  "takeWhile P s = g \<and> g \<noteq> [] \<longleftrightarrow>
     (\<exists>rest. s = g @ rest \<and> g \<noteq> [] \<and> list_all P g \<and> (rest = [] \<or> \<not> P (hd rest)))"
proof
  assume a: "takeWhile P s = g \<and> g \<noteq> []"
  let ?rest = "dropWhile P s"
  from a have "s = g @ ?rest" by (metis takeWhile_dropWhile_id)
  moreover from a have "list_all P g" by (auto simp: list_all_iff dest: set_takeWhileD)
  moreover have "?rest = [] \<or> \<not> P (hd ?rest)" by (metis hd_dropWhile)
  ultimately show "\<exists>rest. s = g @ rest \<and> g \<noteq> [] \<and> list_all P g \<and> (rest = [] \<or> \<not> P (hd rest))"
    using a by blast
next
  assume "\<exists>rest. s = g @ rest \<and> g \<noteq> [] \<and> list_all P g \<and> (rest = [] \<or> \<not> P (hd rest))"
  then obtain rest where s: "s = g @ rest" and g: "g \<noteq> []" "list_all P g"
    and r: "rest = [] \<or> \<not> P (hd rest)" by blast
  from r have "takeWhile P rest = []" by (cases rest) auto
  with g(2) have "takeWhile P (g @ rest) = g" by (simp add: takeWhile_append2 list_all_iff)
  with s g(1) show "takeWhile P s = g \<and> g \<noteq> []" by simp
qed

lemma takeWhile_nonempty: "takeWhile P s \<noteq> [] \<longleftrightarrow> (\<exists>c rest. s = c # rest \<and> P c)"
  by (cases s) auto

lemma playlist_at_iff: "playlist_at s = Some g \<longleftrightarrow> playlist_param s g"
proof (cases "literal ''list='' s")
  case None
  then have "\<forall>r. s \<noteq> ''list='' @ r" by (metis literal_None_iff)
  with None show ?thesis by (auto simp: playlist_at_def playlist_param_def)
next
  case (Some r)
  then have s: "s = ''list='' @ r" by (simp add: literal_Some_iff)
  have "playlist_at s = Some g \<longleftrightarrow> takeWhile id_char r = g \<and> g \<noteq> []"
    using Some by (auto simp: playlist_at_def)
  also have "\<dots> \<longleftrightarrow> (\<exists>rest. r = g @ rest \<and> g \<noteq> [] \<and> list_all id_char g \<and> (rest = [] \<or> \<not> id_char (hd rest)))"
    by (rule takeWhile_run)
  finally show ?thesis using s by (simp add: playlist_param_def)
qed

text \<open>An alternation of literals of which no two start the same string.\<close>

lemma alternatives_iff:
  assumes "\<forall>l1\<in>set lits. \<forall>l2\<in>set lits. \<forall>r1 r2. l1 @ r1 = l2 @ r2 \<longrightarrow> l1 = l2"
  shows "alternatives lits rest s = Some g \<longleftrightarrow> (\<exists>lit\<in>set lits. \<exists>s'. s = lit @ s' \<and> rest s' = Some g)"
  using assms
proof (induction lits)
  case Nil
  show ?case by simp
next
  case (Cons l ls)
  from Cons.prems have
    tail: "\<forall>l1\<in>set ls. \<forall>l2\<in>set ls. \<forall>r1 r2. l1 @ r1 = l2 @ r2 \<longrightarrow> l1 = l2"
    by simp
  note IH = Cons.IH [OF tail]
  show ?case
  proof (cases "literal l s")
    case None
    then have "\<forall>r. s \<noteq> l @ r" by (metis literal_None_iff)
    with None IH show ?thesis by auto
  next
    case (Some s1)
    then have s: "s = l @ s1" by (simp add: literal_Some_iff)
    have only: "lit = l \<and> s' = s1" if "lit \<in> set (l # ls)" and "s = lit @ s'" for lit s'
    proof -
      from Cons.prems that s have "lit = l" by (metis list.set_intros(1))
      with that s show ?thesis by simp
    qed
    show ?thesis
    proof (cases "rest s1")
      case None
      have a: "alternatives (l # ls) rest s = alternatives ls rest s"
        using Some None by simp
      have "\<not> (\<exists>lit\<in>set ls. \<exists>s'. s = lit @ s' \<and> rest s' = Some g)"
        using only None by fastforce
      with IH have "alternatives ls rest s \<noteq> Some g" by blast
      with a have "alternatives (l # ls) rest s \<noteq> Some g" by metis
      moreover have "\<not> (\<exists>lit\<in>set (l # ls). \<exists>s'. s = lit @ s' \<and> rest s' = Some g)"
        using only None by fastforce
      ultimately show ?thesis by blast
    next
      case (Some g1)
      have "alternatives (l # ls) rest s = Some g1"
        using \<open>literal l s = Some s1\<close> Some by simp
      moreover have "(\<exists>lit\<in>set (l # ls). \<exists>s'. s = lit @ s' \<and> rest s' = Some g) \<longleftrightarrow> g1 = g"
        using only Some s by fastforce
      ultimately show ?thesis by auto
    qed
  qed
qed

lemma eleven_id_chars_iff:
  "eleven_id_chars s = Some g \<longleftrightarrow> (\<exists>rest. s = g @ rest \<and> length g = 11 \<and> list_all id_char g)"
proof
  assume "eleven_id_chars s = Some g"
  then have "11 \<le> length s" and "list_all id_char (take 11 s)" and g: "g = take 11 s"
    by (auto simp: eleven_id_chars_def split: if_splits)
  then have "s = g @ drop 11 s \<and> length g = 11 \<and> list_all id_char g" by simp
  then show "\<exists>rest. s = g @ rest \<and> length g = 11 \<and> list_all id_char g" by blast
next
  assume "\<exists>rest. s = g @ rest \<and> length g = 11 \<and> list_all id_char g"
  then show "eleven_id_chars s = Some g" by (auto simp: eleven_id_chars_def)
qed

lemma channel_run_iff:
  "channel_run s = Some g \<longleftrightarrow>
     (\<exists>rest. s = g @ rest \<and> g \<noteq> [] \<and> list_all channel_char g \<and> (rest = [] \<or> \<not> channel_char (hd rest)))"
proof -
  have "channel_run s = Some g \<longleftrightarrow> takeWhile channel_char s = g \<and> g \<noteq> []"
    by (auto simp: channel_run_def)
  then show ?thesis by (simp only: takeWhile_run)
qed

lemma video_at_iff: "video_at s = Some g \<longleftrightarrow> video_token s g"
proof -
  have "\<forall>l1\<in>set [''watch?v='', ''youtu.be/'', ''embed/''].
          \<forall>l2\<in>set [''watch?v='', ''youtu.be/'', ''embed/'']. \<forall>r1 r2. l1 @ r1 = l2 @ r2 \<longrightarrow> l1 = l2"
    by simp
  from alternatives_iff [OF this, of eleven_id_chars s g] show ?thesis
    unfolding video_at_def video_token_def eleven_id_chars_iff by (simp only: bex_simps) blast
qed

lemma channel_at_iff: "channel_at s = Some g \<longleftrightarrow> channel_segment s g"
proof -
  have "\<forall>l1\<in>set [''/channel/'', ''/c/'', ''/@/''].
          \<forall>l2\<in>set [''/channel/'', ''/c/'', ''/@/'']. \<forall>r1 r2. l1 @ r1 = l2 @ r2 \<longrightarrow> l1 = l2"
    by simp
  from alternatives_iff [OF this, of channel_run s g] show ?thesis
    unfolding channel_at_def channel_segment_def channel_run_iff by (simp only: bex_simps) blast
qed

text \<open>\<open>re_search\<close> against the reading of the specification.\<close>

lemma re_search_occurs:
  assumes "\<And>suf g. at suf = Some g \<longleftrightarrow> P suf g"
  shows "re_search at s = None \<longleftrightarrow> \<not> occurs P s"
proof -
  have "at suf = None \<longleftrightarrow> (\<forall>g. \<not> P suf g)" for suf
    using assms [of suf] by (cases "at suf") auto
  then show ?thesis
    unfolding re_search_None_iff occurs_def by blast
qed

lemma re_search_first:
  assumes "\<And>suf g. at suf = Some g \<longleftrightarrow> P suf g" and "re_search at s = Some g"
  shows "first_occurrence P s g"
proof -
  from re_search_Some [OF assms(2)] obtain pre suf where
    s: "s = pre @ suf" and m: "at suf = Some g" and
    first: "\<forall>pre' suf'. s = pre' @ suf' \<and> length pre' < length pre \<longrightarrow> at suf' = None"
    by blast
  have "length pre \<le> length pre'" if "s = pre' @ suf' \<and> P suf' g'" for pre' suf' g'
  proof (rule ccontr)
    assume "\<not> length pre \<le> length pre'"
    then have "length pre' < length pre" by simp
    with that first have "at suf' = None" by blast
    moreover from that assms(1) have "at suf' = Some g'" by simp
    ultimately show False by simp
  qed
  with s m assms(1) show ?thesis
    unfolding first_occurrence_def by blast
qed

lemmas search_occurs =
  re_search_occurs [of playlist_at playlist_param, OF playlist_at_iff]
  re_search_occurs [of video_at video_token, OF video_at_iff]
  re_search_occurs [of channel_at channel_segment, OF channel_at_iff]

lemmas search_first =
  re_search_first [of playlist_at playlist_param, OF playlist_at_iff]
  re_search_first [of video_at video_token, OF video_at_iff]
  re_search_first [of channel_at channel_segment, OF channel_at_iff]

text \<open>
  C6. The classifier tries the playlist pattern, then the video pattern, then the channel
  pattern, and returns the kind of the first pattern that occurs together with the
  identifier of its first occurrence in the string. So a string with a playlist parameter
  is a playlist whether or not it also has a video identifier, and a string in which none
  of the three patterns occurs gives \<open>(None, None)\<close>, on which the aggregator skips the source
  and goes on.
\<close>

theorem parse_url_precedence:
  "(occurs playlist_param s \<longrightarrow>
      (\<exists>g. parse_url s = (Some Playlist, Some g) \<and> first_occurrence playlist_param s g))
 \<and> (occurs playlist_param s \<and> occurs video_token s \<longrightarrow> fst (parse_url s) = Some Playlist)
 \<and> (\<not> occurs playlist_param s \<and> occurs video_token s \<longrightarrow>
      (\<exists>g. parse_url s = (Some Video, Some g) \<and> first_occurrence video_token s g))
 \<and> (\<not> occurs playlist_param s \<and> \<not> occurs video_token s \<and> occurs channel_segment s \<longrightarrow>
      (\<exists>g. parse_url s = (Some Channel, Some g) \<and> first_occurrence channel_segment s g))
 \<and> (\<not> occurs playlist_param s \<and> \<not> occurs video_token s \<and> \<not> occurs channel_segment s \<longrightarrow>
      parse_url s = (None, None)
      \<and> process_source yt pd minutes save_links rep s = Some (Inr rep))"
proof -
  have playlist: "\<exists>g. parse_url s = (Some Playlist, Some g) \<and> first_occurrence playlist_param s g"
    if "occurs playlist_param s"
  proof -
    from that obtain g where g: "re_search playlist_at s = Some g"
      using search_occurs(1) [of s] by auto
    then have "parse_url s = (Some Playlist, Some g)" by (simp add: parse_url_def)
    with search_first(1) [OF g] show ?thesis by blast
  qed
  have video: "\<exists>g. parse_url s = (Some Video, Some g) \<and> first_occurrence video_token s g"
    if "\<not> occurs playlist_param s \<and> occurs video_token s"
  proof -
    from that have n: "re_search playlist_at s = None"
      using search_occurs(1) [of s] by simp
    from that obtain g where g: "re_search video_at s = Some g"
      using search_occurs(2) [of s] by auto
    with n have "parse_url s = (Some Video, Some g)" by (simp add: parse_url_def)
    with search_first(2) [OF g] show ?thesis by blast
  qed
  have channel: "\<exists>g. parse_url s = (Some Channel, Some g) \<and> first_occurrence channel_segment s g"
    if "\<not> occurs playlist_param s \<and> \<not> occurs video_token s \<and> occurs channel_segment s"
  proof -
    from that have n: "re_search playlist_at s = None" "re_search video_at s = None"
      using search_occurs(1,2) [of s] by simp_all
    from that obtain g where g: "re_search channel_at s = Some g"
      using search_occurs(3) [of s] by auto
    with n have "parse_url s = (Some Channel, Some g)" by (simp add: parse_url_def)
    with search_first(3) [OF g] show ?thesis by blast
  qed
  have none: "parse_url s = (None, None) \<and> process_source yt pd minutes save_links rep s = Some (Inr rep)"
    if "\<not> occurs playlist_param s \<and> \<not> occurs video_token s \<and> \<not> occurs channel_segment s"
  proof -
    from that have "re_search playlist_at s = None" "re_search video_at s = None"
        "re_search channel_at s = None"
      using search_occurs [of s] by simp_all
    then have "parse_url s = (None, None)" by (simp add: parse_url_def)
    then show ?thesis by (simp add: process_source_def source_video_ids_def)
  qed
  have both: "fst (parse_url s) = Some Playlist" if "occurs playlist_param s \<and> occurs video_token s"
    using playlist that by auto
  from playlist both video channel none show ?thesis by blast
qed

theorem parse_url_precedence_witness:
  "parse_url ''watch?v=abcdefghijk&list=PL1'' = (Some Playlist, Some ''PL1'')
   \<and> first_occurrence playlist_param ''watch?v=abcdefghijk&list=PL1'' ''PL1''
   \<and> parse_url ''youtu.be/abcdefghijk'' = (Some Video, Some ''abcdefghijk'')
   \<and> first_occurrence video_token ''youtu.be/abcdefghijk'' ''abcdefghijk''
   \<and> parse_url ''x/c/Some.Name/videos'' = (Some Channel, Some ''Some.Name'')
   \<and> first_occurrence channel_segment ''x/c/Some.Name/videos'' ''Some.Name''
   \<and> parse_url ''youtube.com/@handle'' = (None, None)"
proof -
  note defs = parse_url_def playlist_at_def literal_def video_at_def channel_at_def
    channel_run_def channel_char_def eleven_id_chars_def id_char_def
  have p: "occurs playlist_param ''watch?v=abcdefghijk&list=PL1''"
      "occurs video_token ''watch?v=abcdefghijk&list=PL1''"
    using search_occurs(1,2) [of "''watch?v=abcdefghijk&list=PL1''"]
    by (simp_all add: defs)
  have v: "\<not> occurs playlist_param ''youtu.be/abcdefghijk''" "occurs video_token ''youtu.be/abcdefghijk''"
    using search_occurs(1,2) [of "''youtu.be/abcdefghijk''"]
    by (simp_all add: defs)
  have c: "\<not> occurs playlist_param ''x/c/Some.Name/videos''" "\<not> occurs video_token ''x/c/Some.Name/videos''"
      "occurs channel_segment ''x/c/Some.Name/videos''"
    using search_occurs [of "''x/c/Some.Name/videos''"]
    by (simp_all add: defs)
  have n: "\<not> occurs playlist_param ''youtube.com/@handle''" "\<not> occurs video_token ''youtube.com/@handle''"
      "\<not> occurs channel_segment ''youtube.com/@handle''"
    using search_occurs [of "''youtube.com/@handle''"]
    by (simp_all add: defs)
  have e: "parse_url ''watch?v=abcdefghijk&list=PL1'' = (Some Playlist, Some ''PL1'')"
      "parse_url ''youtu.be/abcdefghijk'' = (Some Video, Some ''abcdefghijk'')"
      "parse_url ''x/c/Some.Name/videos'' = (Some Channel, Some ''Some.Name'')"
    by (simp_all add: defs)
  from parse_url_precedence [of "''watch?v=abcdefghijk&list=PL1''"] p e(1)
  have 1: "first_occurrence playlist_param ''watch?v=abcdefghijk&list=PL1'' ''PL1''" by auto
  from parse_url_precedence [of "''youtu.be/abcdefghijk''"] v e(2)
  have 2: "first_occurrence video_token ''youtu.be/abcdefghijk'' ''abcdefghijk''" by auto
  from parse_url_precedence [of "''x/c/Some.Name/videos''"] c e(3)
  have 3: "first_occurrence channel_segment ''x/c/Some.Name/videos'' ''Some.Name''" by auto
  from parse_url_precedence [of "''youtube.com/@handle''"] n
  have 4: "parse_url ''youtube.com/@handle'' = (None, None)" by blast
  from e 1 2 3 4 show ?thesis by blast
qed

section \<open>The search script: proofs\<close>

subsection \<open>Paging\<close>

lemma py_take_length: "0 \<le> n \<Longrightarrow> int (length (py_take n xs)) \<le> n"
  by (simp add: py_take_def)

lemma py_take_all: "int (length xs) < n \<Longrightarrow> py_take n xs = xs"
  by (simp add: py_take_def)

text \<open>
  The loop over the items of a page: when it returns from inside, the result respects the
  bound; when it runs to its end from fewer results than the bound, it still has fewer.
\<close>

lemma filter_items_Return:
  assumes "filter_items pd m mx vd final items = Inr (Return rs)" and "0 \<le> mx"
  shows "int (length rs) \<le> mx"
  using assms
proof (induction items arbitrary: final)
  case Nil
  then show ?case by simp
next
  case (Cons item items)
  from Cons.prems(1) show ?case
    by (auto simp: Let_def py_take_length [OF Cons.prems(2)]
             split: option.splits if_splits dest: Cons.IH [OF _ Cons.prems(2)])
qed

lemma filter_items_Continue:
  assumes "filter_items pd m mx vd final items = Inr (Continue final')" and "int (length final) < mx"
  shows "int (length final') < mx"
  using assms
proof (induction items arbitrary: final)
  case Nil
  then show ?case by simp
next
  case (Cons item items)
  from Cons.prems show ?case
    by (auto simp: Let_def split: option.splits if_splits dest: Cons.IH)
qed

lemma search_pages_calls:
  "length (fst (search_pages n svc pd params m mx final tok calls)) \<le> length calls + n"
proof (induction n arbitrary: final tok calls)
  case 0
  show ?case by simp
next
  case (Suc n)
  have "length (fst (search_pages n svc pd params m mx final' tok' (calls @ [r]))) \<le> length calls + Suc n"
    for final' tok' r
    using Suc.IH [of final' tok' "calls @ [r]"] by simp
  then show ?case
    by (auto simp: Let_def split: sum.splits option.splits flow.splits)
qed

lemma search_pages_bound:
  assumes "snd (search_pages n svc pd params m mx final tok calls) = Inr rs" and "0 \<le> mx"
  shows "int (length rs) \<le> mx"
  using assms(1)
proof (induction n arbitrary: final tok calls)
  case 0
  with assms(2) show ?case by (auto simp: py_take_length)
next
  case (Suc n)
  from Suc.prems show ?case
    by (auto simp: Let_def py_take_length [OF assms(2)]
             split: sum.splits option.splits flow.splits if_splits
             dest: Suc.IH filter_items_Return [OF _ assms(2)])
qed

text \<open>
  Once a run of \<open>n\<close> rounds has returned as many results as asked for, a further round
  changes nothing: no further page is requested.
\<close>

lemma search_pages_full:
  assumes "search_pages n svc pd params m mx final tok calls = (t, Inr rs)"
    and "int (length rs) = mx" and "int (length final) < mx"
  shows "search_pages (Suc n) svc pd params m mx final tok calls = (t, Inr rs)"
  using assms(1,3)
proof (induction n arbitrary: final tok calls)
  case 0
  with assms(2) show ?case by (simp add: py_take_all)
next
  case (Suc n)
  let ?request = "params\<lparr>pageToken := tok\<rparr>"
  show ?case
  proof (cases "search_list svc ?request")
    case (Inl e)
    with Suc.prems assms(2) show ?thesis
      by (auto simp: py_take_all split: if_splits)
  next
    case (Inr response)
    note response = Inr
    show ?thesis
    proof (cases "those (map id_videoId (search_items response))")
      case None
      with Suc.prems response show ?thesis by simp
    next
      case (Some video_ids)
      note ids = Some
      show ?thesis
      proof (cases "video_ids = []")
        case True
        with Suc.prems response ids assms(2) show ?thesis
          by (auto simp: py_take_all)
      next
        case False
        note nonempty = False
        show ?thesis
        proof (cases "details_list svc (join_comma video_ids)")
          case (Inl e)
          with Suc.prems response ids nonempty assms(2) show ?thesis
            by (auto simp: py_take_all split: if_splits)
        next
          case (Inr items)
          note items = Inr
          show ?thesis
          proof (cases "details_dict items")
            case (Inl e)
            with Suc.prems response ids nonempty items show ?thesis by simp
          next
            case (Inr vd)
            note vd = Inr
            show ?thesis
            proof (cases "filter_items pd m mx vd final (search_items response)")
              case (Inl e)
              with Suc.prems response ids nonempty items vd show ?thesis by simp
            next
              case (Inr fl)
              show ?thesis
              proof (cases fl)
                case (Return results)
                with Suc.prems response ids nonempty items vd Inr show ?thesis by simp
              next
                case (Continue final')
                with Inr Suc.prems(2) have short: "int (length final') < mx"
                  by (auto dest: filter_items_Continue)
                show ?thesis
                proof (cases "no_token (search_nextPageToken response)")
                  case True
                  with Suc.prems response ids nonempty items vd Inr Continue short assms(2)
                  show ?thesis by (auto simp: py_take_all)
                next
                  case False
                  with Suc.prems(1) response ids nonempty items vd Inr Continue
                  have "search_pages n svc pd params m mx final' (search_nextPageToken response)
                          (calls @ [?request]) = (t, Inr rs)"
                    by simp
                  from Suc.IH [OF this short]
                  have "search_pages (Suc n) svc pd params m mx final' (search_nextPageToken response)
                          (calls @ [?request]) = (t, Inr rs)" .
                  with False response ids nonempty items vd Inr Continue show ?thesis
                    by (simp add: search_pages.simps(2) [of "Suc n"] del: search_pages.simps)
                qed
              qed
            qed
          qed
        qed
      qed
    qed
  qed
qed

lemma search_pages_full_upto:
  assumes "search_pages n svc pd params m mx final tok calls = (t, Inr rs)"
    and "int (length rs) = mx" and "int (length final) < mx"
  shows "search_pages (n + k) svc pd params m mx final tok calls = (t, Inr rs)"
proof (induction k)
  case 0
  from assms(1) show ?case by simp
next
  case (Suc k)
  from search_pages_full [OF Suc.IH assms(2,3)] show ?case by simp
qed

text \<open>
  C7. The search with a custom minimum duration always returns, and for every service,
  also one that gives a continuation token with every response, it requests at most 5
  search pages. It never returns more results than the bound asked for, and it stops as
  soon as that many results are collected: when the first \<open>n\<close> rounds already give that
  many, the function returns them after at most \<open>n\<close> search calls.
\<close>

theorem search_pagination_bounded:
  "m \<noteq> 0 \<longrightarrow>
     length (fst (search_youtube svc pd query language country category max_results (Some m))) \<le> 5
   \<and> (0 \<le> max_results \<longrightarrow>
        (\<forall>rs. snd (search_youtube svc pd query language country category max_results (Some m)) = Inr rs
           \<longrightarrow> int (length rs) \<le> max_results))
   \<and> (1 \<le> max_results \<and> n \<le> 5
        \<and> search_pages n svc pd
            \<lparr>q = query, relevanceLanguage = language,
             regionCode = (if country = None \<or> country = Some [] then None else country),
             videoDuration = None, maxResults = 50, pageToken = None\<rparr>
            (60 * m) max_results [] None [] = (calls, Inr rs)
        \<and> int (length rs) = max_results \<longrightarrow>
        search_youtube svc pd query language country category max_results (Some m) = (calls, Inr rs)
        \<and> length calls \<le> n)"
proof (intro impI conjI allI)
  assume m: "m \<noteq> 0"
  let ?params = "\<lparr>q = query, relevanceLanguage = language,
             regionCode = (if country = None \<or> country = Some [] then None else country),
             videoDuration = None, maxResults = 50, pageToken = None\<rparr>"
  have run: "search_youtube svc pd query language country category max_results (Some m) =
               search_pages 5 svc pd ?params (60 * m) max_results [] None []"
    using m by (simp add: search_youtube_def Let_def del: search_pages.simps)
  show "length (fst (search_youtube svc pd query language country category max_results (Some m))) \<le> 5"
    using search_pages_calls [of 5 svc pd ?params "60 * m" max_results "[]" None "[]"]
    by (simp only: run list.size)
  {
    fix rs
    assume "0 \<le> max_results"
      and "snd (search_youtube svc pd query language country category max_results (Some m)) = Inr rs"
    then show "int (length rs) \<le> max_results"
      unfolding run by (intro search_pages_bound) simp_all
  }
  {
    assume a: "1 \<le> max_results \<and> n \<le> 5
        \<and> search_pages n svc pd ?params (60 * m) max_results [] None [] = (calls, Inr rs)
        \<and> int (length rs) = max_results"
    then have pages: "search_pages n svc pd ?params (60 * m) max_results [] None [] = (calls, Inr rs)"
      and full: "int (length rs) = max_results" and short: "int (length ([] :: search_result list)) < max_results"
      by simp_all
    from a have "n + (5 - n) = 5" by simp
    with search_pages_full_upto [OF pages full short, of "5 - n"]
    show "search_youtube svc pd query language country category max_results (Some m) = (calls, Inr rs)"
      by (simp only: run)
    from search_pages_calls [of n svc pd ?params "60 * m" max_results "[]" None "[]"] pages
    show "length calls \<le> n" by simp
  }
qed

theorem search_pagination_bounded_witness:
  "length (fst (search_youtube
        \<lparr>search_list = (\<lambda>p. Inr \<lparr>search_items =
              [\<lparr>id_videoId = Some ''v'', snippet_title = Some ''t'', snippet_channelTitle = Some ''c''\<rparr>],
              search_nextPageToken = Some ''next''\<rparr>),
          details_list = (\<lambda>s. Inr [\<lparr>item_id = Some ''v'', contentDetails = Some (Some ''PT5M'')\<rparr>])\<rparr>
        (\<lambda>s. Some 300) ''cats'' ''en'' None ''any'' 10 (Some 1))) \<le> 5
   \<and> (\<exists>rs. snd (search_youtube
        \<lparr>search_list = (\<lambda>p. Inr \<lparr>search_items =
              [\<lparr>id_videoId = Some ''v'', snippet_title = Some ''t'', snippet_channelTitle = Some ''c''\<rparr>],
              search_nextPageToken = Some ''next''\<rparr>),
          details_list = (\<lambda>s. Inr [\<lparr>item_id = Some ''v'', contentDetails = Some (Some ''PT5M'')\<rparr>])\<rparr>
        (\<lambda>s. Some 300) ''cats'' ''en'' None ''any'' 10 (Some 1)) = Inr rs
        \<and> length rs = 5 \<and> int (length rs) \<le> 10)
   \<and> (\<exists>calls rs. search_youtube
        \<lparr>search_list = (\<lambda>p. Inr \<lparr>search_items =
              [\<lparr>id_videoId = Some ''v'', snippet_title = Some ''t'', snippet_channelTitle = Some ''c''\<rparr>],
              search_nextPageToken = Some ''next''\<rparr>),
          details_list = (\<lambda>s. Inr [\<lparr>item_id = Some ''v'', contentDetails = Some (Some ''PT5M'')\<rparr>])\<rparr>
        (\<lambda>s. Some 300) ''cats'' ''en'' None ''any'' 2 (Some 1) = (calls, Inr rs)
        \<and> length calls = 2 \<and> length rs = 2)"
proof -
  let ?svc = "\<lparr>search_list = (\<lambda>p. Inr \<lparr>search_items =
              [\<lparr>id_videoId = Some ''v'', snippet_title = Some ''t'', snippet_channelTitle = Some ''c''\<rparr>],
              search_nextPageToken = Some ''next''\<rparr>),
          details_list = (\<lambda>s. Inr [\<lparr>item_id = Some ''v'', contentDetails = Some (Some ''PT5M'')\<rparr>])\<rparr>"
  let ?pd = "(\<lambda>s. Some 300)"
  note defs = search_youtube_def details_dict_def no_token_def py_take_def Let_def
  have ten: "\<exists>rs. snd (search_youtube ?svc ?pd ''cats'' ''en'' None ''any'' 10 (Some 1)) = Inr rs \<and> length rs = 5"
    by (simp add: defs eval_nat_numeral)
  have "\<exists>calls rs. search_pages (Suc (Suc 0)) ?svc ?pd
            \<lparr>q = ''cats'', relevanceLanguage = ''en'', regionCode = None,
             videoDuration = None, maxResults = 50, pageToken = None\<rparr>
            (60 * 1) 2 [] None [] = (calls, Inr rs) \<and> length calls = 2 \<and> length rs = 2"
    by (simp add: defs)
  then obtain calls rs where
    two: "search_pages (Suc (Suc 0)) ?svc ?pd
            \<lparr>q = ''cats'', relevanceLanguage = ''en'', regionCode = None,
             videoDuration = None, maxResults = 50, pageToken = None\<rparr>
            (60 * 1) 2 [] None [] = (calls, Inr rs)" and
    len: "length calls = 2" "length rs = 2"
    by blast
  note inst10 = search_pagination_bounded [where m = 1 and svc = ?svc and pd = ?pd and query = "''cats''"
      and language = "''en''" and country = None and category = "''any''" and max_results = 10]
  note inst2 = search_pagination_bounded [where m = 1 and svc = ?svc and pd = ?pd and query = "''cats''"
      and language = "''en''" and country = None and category = "''any''" and max_results = 2
      and n = "Suc (Suc 0)" and calls = calls and rs = rs]
  from inst10 have c1: "length (fst (search_youtube ?svc ?pd ''cats'' ''en'' None ''any'' 10 (Some 1))) \<le> 5"
    by simp
  from inst10 ten
  have c1': "\<exists>rs. snd (search_youtube ?svc ?pd ''cats'' ''en'' None ''any'' 10 (Some 1)) = Inr rs
               \<and> length rs = 5 \<and> int (length rs) \<le> 10"
    by auto
  from inst2 two len have c2: "search_youtube ?svc ?pd ''cats'' ''en'' None ''any'' 2 (Some 1) = (calls, Inr rs)"
    by simp
  from c1 c1' c2 len show ?thesis by blast
qed

subsection \<open>Saving the results\<close>







end
